theory Spec2Isabelle
  imports Main
begin

section \<open>cogent3.util.parallel: the parallel map and its seed generator\<close>

text \<open>
  The development embeds \<^verbatim>\<open>src/cogent3/util/parallel.py\<close>: the import-time
  selection of MPI (lines 24-37 and 51-56), \<^verbatim>\<open>generate_seed\<close> (39-49), the registry
  \<^verbatim>\<open>_FUNCTIONS\<close> with its proxy class \<^verbatim>\<open>PicklableAndCallable\<close> (59-74), the generator
  \<^verbatim>\<open>imap\<close> (77-136) and \<^verbatim>\<open>map\<close> (139-140).

  Python integers are \<open>int\<close>, \<^verbatim>\<open>None\<close>-able arguments are options, strings are
  \<open>string\<close> (a character is a code point below 256), exceptions are values of \<open>exn\<close>
  and a computation that may raise returns \<open>exn + 'a\<close>. \<^verbatim>\<open>assert\<close> statements are
  executed (the interpreter's default, \<^verbatim>\<open>__debug__\<close> true).
\<close>

subsection \<open>Exceptions and string primitives\<close>

text \<open>
  An exception carries its message. Messages written in the source are kept literally;
  for an exception raised by the interpreter or a library the payload abbreviates
  CPython's message.
\<close>

datatype exn =
    AssertionError string
  | RuntimeError string
  | TypeError string
  | ValueError string
  | IndexError string
  | NameError string
  | AttributeError string
  | BrokenProcessPool
  | Exception string

text \<open>\<^verbatim>\<open>str.lower()\<close> on code points below 256: A-Z and the Latin-1 capitals move by 32.\<close>

definition lower_char :: "char \<Rightarrow> char" where
  "lower_char c =
     (let n = (of_char c :: nat)
      in if (65 \<le> n \<and> n \<le> 90) \<or> (192 \<le> n \<and> n \<le> 222 \<and> n \<noteq> 215)
         then char_of (n + 32) else c)"

definition lower :: "string \<Rightarrow> string" where
  "lower s = map lower_char s"

text \<open>
  \<^verbatim>\<open>int(c)\<close> for a string of one character: the value of a decimal digit, ValueError for
  anything else (a sign, a blank and a letter are all invalid on their own).
\<close>

definition int_of_char :: "char \<Rightarrow> exn + int" where
  "int_of_char c =
     (let n = (of_char c :: nat)
      in if 48 \<le> n \<and> n \<le> 57 then Inr (int n - 48)
         else Inl (ValueError (''invalid literal for int() with base 10: '' @ [c])))"

text \<open>\<^verbatim>\<open>str(n)\<close> for a non-negative integer: its decimal digits.\<close>

definition digit :: "nat \<Rightarrow> char" where
  "digit d = char_of (48 + d)"

fun str_nat :: "nat \<Rightarrow> string" where
  "str_nat n = (if n < 10 then [digit n] else str_nat (n div 10) @ [digit (n mod 10)])"

declare str_nat.simps [simp del]

text \<open>
  Results in order up to the first exception: what \<^verbatim>\<open>list(...)\<close> makes of a sequence
  whose production may raise, and what a list comprehension computes.
\<close>

fun collect :: "(exn + 'v) list \<Rightarrow> exn + 'v list" where
  "collect [] = Inr []"
| "collect (Inl e # rs) = Inl e"
| "collect (Inr v # rs) = (case collect rs of Inl e \<Rightarrow> Inl e | Inr vs \<Rightarrow> Inr (v # vs))"

text \<open>\<^verbatim>\<open>[f(x) for x in s]\<close>: \<open>f\<close> is applied item by item, the first raise propagates.\<close>

definition list_comprehension :: "('a \<Rightarrow> exn + 'b) \<Rightarrow> 'a list \<Rightarrow> exn + 'b list" where
  "list_comprehension f s = collect (map f s)"

subsection \<open>The host and the module's globals (lines 24-37, 51-56)\<close>

text \<open>
  What the module reads from its environment. \<open>mpi4py\<close> is \<open>None\<close> when the import
  fails, else the communicator \<^verbatim>\<open>MPI.COMM_WORLD\<close> with the three readings the module
  takes from it; \<^verbatim>\<open>Get_attr(MPI.UNIVERSE_SIZE)\<close> is \<^verbatim>\<open>None\<close> when the launcher did not
  set the attribute. \<open>start_method\<close> is how multiprocessing creates the processes of
  a pool on this host (\<^verbatim>\<open>multiprocessing.get_start_method()\<close>).
\<close>

datatype start_method = Fork | Spawn | Forkserver

record comm =
  UNIVERSE_SIZE :: "int option"
  Get_size :: int
  Get_rank :: int

record host =
  DONT_USE_MPI :: "string option"
  mpi4py :: "comm option"
  cpu_count :: int
  time_time :: int
  start_method :: start_method

text \<open>The class whose name multiprocessing gives the processes of a pool.\<close>

definition process_class :: "start_method \<Rightarrow> string" where
  "process_class m =
     (case m of
        Fork \<Rightarrow> ''ForkProcess''
      | Spawn \<Rightarrow> ''SpawnProcess''
      | Forkserver \<Rightarrow> ''ForkServerProcess'')"

text \<open>
  The globals after import: whether \<^verbatim>\<open>MPI\<close> is not \<^verbatim>\<open>None\<close>, the binding of \<^verbatim>\<open>COMM\<close>
  (\<open>None\<close>: the name is unbound) and \<^verbatim>\<open>USING_MPI\<close>.
\<close>

record module =
  MPI :: bool
  COMM :: "comm option"
  USING_MPI :: bool

text \<open>\<^verbatim>\<open>os.environ.get('DONT_USE_MPI', 0)\<close> is true for a set, non-empty variable.\<close>

definition environ_truthy :: "string option \<Rightarrow> bool" where
  "environ_truthy v = (case v of None \<Rightarrow> False | Some s \<Rightarrow> s \<noteq> [])"

text \<open>
  Lines 24-37: \<^verbatim>\<open>MPI\<close> is \<^verbatim>\<open>None\<close> when the variable is set, when the import fails, and
  when the universe has size 1. Lines 51-56: with \<^verbatim>\<open>MPI\<close> kept and
  \<^verbatim>\<open>COMM.Get_size() > 1\<close> the module calls \<^verbatim>\<open>generate_seed(True, seed)\<close>, whose argument
  \<^verbatim>\<open>seed\<close> is bound nowhere in the module: the import ends in NameError.
\<close>

definition module_init :: "host \<Rightarrow> exn + module" where
  "module_init h =
     (if environ_truthy (DONT_USE_MPI h)
      then Inr \<lparr>MPI = False, COMM = None, USING_MPI = False\<rparr>
      else case mpi4py h of
          None \<Rightarrow> Inr \<lparr>MPI = False, COMM = None, USING_MPI = False\<rparr>
        | Some c \<Rightarrow>
            if UNIVERSE_SIZE c = Some 1
            then Inr \<lparr>MPI = False, COMM = Some c, USING_MPI = False\<rparr>
            else if Get_size c > 1 then Inl (NameError ''seed'')
            else Inr \<lparr>MPI = True, COMM = Some c, USING_MPI = True\<rparr>)"

subsection \<open>generate\_seed (lines 39-49)\<close>

text \<open>
  The process that runs \<^verbatim>\<open>generate_seed\<close>: its binding of \<^verbatim>\<open>COMM\<close>, the name
  \<^verbatim>\<open>multiprocessing.current_process().name\<close>, the reading \<^verbatim>\<open>int(time.time())\<close> and the
  global \<^verbatim>\<open>random_seed\<close> (\<open>None\<close>: not yet assigned).
\<close>

record process =
  proc_COMM :: "comm option"
  proc_name :: string
  proc_time :: int
  random_seed :: "int option"

text \<open>
  Lines 41-45. \<^verbatim>\<open>process_name[-1]\<close> is the last character, IndexError on the empty
  name; \<^verbatim>\<open>int\<close> of it is its digit value or ValueError.
\<close>

definition rank :: "process \<Rightarrow> bool \<Rightarrow> exn + int" where
  "rank p use_mpi =
     (if use_mpi
      then (case proc_COMM p of
              None \<Rightarrow> Inl (NameError ''COMM'')
            | Some c \<Rightarrow> Inr (Get_rank c))
      else (let process_name = proc_name p
            in if process_name = [] then Inl (IndexError ''string index out of range'')
               else int_of_char (last process_name)))"

definition generate_seed :: "process \<Rightarrow> bool \<Rightarrow> int option \<Rightarrow> exn + process" where
  "generate_seed p use_mpi seed =
     (case rank p use_mpi of
        Inl e \<Rightarrow> Inl e
      | Inr r \<Rightarrow>
          (case seed of
             Some sd \<Rightarrow> Inr (p\<lparr>random_seed := Some (sd + r)\<rparr>)
           | None \<Rightarrow> Inr (p\<lparr>random_seed := Some (proc_time p + r)\<rparr>)))"

text \<open>
  What a process finds in its global \<^verbatim>\<open>random_seed\<close> after running \<^verbatim>\<open>generate_seed\<close>:
  the value stored, or the old content when the call raised.
\<close>

definition worker_seed :: "process \<Rightarrow> bool \<Rightarrow> int option \<Rightarrow> int option" where
  "worker_seed p use_mpi seed =
     (case generate_seed p use_mpi seed of
        Inl e \<Rightarrow> random_seed p
      | Inr p' \<Rightarrow> random_seed p')"

subsection \<open>The registry and its proxy (lines 59-74)\<close>

text \<open>
  A function object is its identity \<^verbatim>\<open>id(f)\<close> and what calling it does. The registry
  \<^verbatim>\<open>_FUNCTIONS\<close> is a dict from identities to functions.
\<close>

record ('a, 'b) pyfunc =
  ident :: nat
  call :: "'a \<Rightarrow> exn + 'b"

type_synonym ('a, 'b) registry = "nat \<rightharpoonup> ('a \<Rightarrow> exn + 'b)"

record ('a, 'b) PicklableAndCallable =
  key :: nat
  func :: "('a \<Rightarrow> exn + 'b) option"

definition PicklableAndCallable_init :: "nat \<Rightarrow> ('a, 'b) PicklableAndCallable" where
  "PicklableAndCallable_init k = \<lparr>key = k, func = None\<rparr>"

text \<open>
  \<^verbatim>\<open>__call__\<close>, run against the registry of the process that calls it: the first call
  looks the key up (KeyError becomes a bare RuntimeError) and keeps the function.
\<close>

definition PicklableAndCallable_call ::
  "('a, 'b) registry \<Rightarrow> ('a, 'b) PicklableAndCallable \<Rightarrow> 'a
     \<Rightarrow> (exn + 'b) \<times> ('a, 'b) PicklableAndCallable" where
  "PicklableAndCallable_call FUNCTIONS self x =
     (case func self of
        Some g \<Rightarrow> (g x, self)
      | None \<Rightarrow>
          (case FUNCTIONS (key self) of
             None \<Rightarrow> (Inl (RuntimeError []), self)
           | Some g \<Rightarrow> (g x, self\<lparr>func := Some g\<rparr>)))"

subsection \<open>The submitting process and the pools\<close>

text \<open>
  What a call can change in the submitting process and around it: the registry, the
  warnings emitted, the executor constructors called with their \<^verbatim>\<open>max_workers\<close>, the
  counter from which multiprocessing numbers its processes, the worker processes
  started by local pools (each with the seed its initializer stored) and the number of
  work items handed to a pool. \<open>mpi_results\<close> is what the workers of an MPI pool send
  back for a worker count, a seed, a function and its items: the exception of
  \<^verbatim>\<open>executor.map\<close>, or one outcome per result. Those workers are processes of the MPI
  runtime that make the function available by their own means (a worker that imports
  this module in a communicator of more than one process fails at line 53), so nothing
  is assumed about what they deliver.
\<close>

datatype backend = LOCAL | DISTRIBUTED

record ('a, 'b) world =
  FUNCTIONS :: "('a, 'b) registry"
  warnings :: "string list"
  pool_calls :: "(backend \<times> int) list"
  process_counter :: nat
  workers :: "process list"
  submitted :: nat
  mpi_results :: "int \<Rightarrow> int option \<Rightarrow> ('a, 'b) pyfunc \<Rightarrow> 'a list \<Rightarrow> exn + (exn + 'b) list"

text \<open>
  \<^verbatim>\<open>warnings.warn(message, category=None, stacklevel=1, source=None)\<close>, with
  \<^verbatim>\<open>skip_file_prefixes\<close> in later versions: a keyword that is not a parameter is a
  TypeError, as for every Python call; otherwise the message is emitted.
\<close>

definition warnings_warn ::
  "('a, 'b) world \<Rightarrow> string list \<Rightarrow> (string \<times> string) list \<Rightarrow> exn + ('a, 'b) world" where
  "warnings_warn w positional keywords =
     (case filter (\<lambda>k. k \<notin> set [''message'', ''category'', ''stacklevel'', ''source'',
                                ''skip_file_prefixes''])
             (map fst keywords) of
        k # ks \<Rightarrow> Inl (TypeError (''warn() got an unexpected keyword argument '' @ k))
      | [] \<Rightarrow>
          (case positional @ map snd keywords of
             [] \<Rightarrow> Inl (TypeError ''warn() missing required argument message'')
           | m # ms \<Rightarrow> Inr (w\<lparr>warnings := warnings w @ [m]\<rparr>)))"

text \<open>
  The two executor constructors, as concurrent.futures and mpi4py.futures document
  them: \<^verbatim>\<open>max_workers <= 0\<close> is a ValueError, raised before any process exists.
\<close>

definition ProcessPoolExecutor :: "('a, 'b) world \<Rightarrow> int \<Rightarrow> (exn + int) \<times> ('a, 'b) world" where
  "ProcessPoolExecutor w max_workers =
     (let w' = w\<lparr>pool_calls := pool_calls w @ [(LOCAL, max_workers)]\<rparr>
      in if max_workers \<le> 0
         then (Inl (ValueError ''max_workers must be greater than 0''), w')
         else (Inr max_workers, w'))"

definition MPIPoolExecutor :: "('a, 'b) world \<Rightarrow> int \<Rightarrow> (exn + int) \<times> ('a, 'b) world" where
  "MPIPoolExecutor w max_workers =
     (let w' = w\<lparr>pool_calls := pool_calls w @ [(DISTRIBUTED, max_workers)]\<rparr>
      in if max_workers \<le> 0
         then (Inl (ValueError ''max_workers must be greater than 0''), w')
         else (Inr max_workers, w'))"

text \<open>
  The processes of a local pool. multiprocessing names the \<open>k\<close>-th process it creates
  \<^verbatim>\<open><class>-k\<close>; each runs the initializer \<^verbatim>\<open>generate_seed(False, seed)\<close> once, with the
  globals of the module. All \<open>max_workers\<close> processes start when the first item is
  submitted, as the pool does under the fork start method (and, before Python 3.9,
  under every start method).
\<close>

definition worker_name :: "host \<Rightarrow> nat \<Rightarrow> string" where
  "worker_name H k = process_class (start_method H) @ ''-'' @ str_nat k"

definition worker_names :: "host \<Rightarrow> nat \<Rightarrow> int \<Rightarrow> string list" where
  "worker_names H counter max_workers =
     map (\<lambda>i. worker_name H (counter + i)) [0..<nat max_workers]"

definition start_workers ::
  "module \<Rightarrow> host \<Rightarrow> ('a, 'b) world \<Rightarrow> int \<Rightarrow> int option \<Rightarrow> (exn + unit) \<times> ('a, 'b) world" where
  "start_workers M H w max_workers seed =
     (let w' = w\<lparr>process_counter := process_counter w + nat max_workers\<rparr>
      in case collect
             (map (\<lambda>nm. generate_seed
                          \<lparr>proc_COMM = COMM M, proc_name = nm,
                           proc_time = time_time H, random_seed = None\<rparr> False seed)
                (worker_names H (process_counter w) max_workers)) of
           Inl e \<Rightarrow> (Inl BrokenProcessPool, w')
         | Inr ps \<Rightarrow> (Inr (), w'\<lparr>workers := workers w @ ps\<rparr>))"

text \<open>
  The registry a pool process finds in its own \<^verbatim>\<open>_FUNCTIONS\<close>. A forked process is a
  copy of the submitting process and holds its registry as it was when the pool
  started. A spawned process, and one forked from the fork server, imports the module
  afresh: line 59 runs and its registry is empty.
\<close>

definition worker_FUNCTIONS :: "host \<Rightarrow> ('a, 'b) registry \<Rightarrow> ('a, 'b) registry" where
  "worker_FUNCTIONS H submitter =
     (case start_method H of
        Fork \<Rightarrow> submitter
      | Spawn \<Rightarrow> Map.empty
      | Forkserver \<Rightarrow> Map.empty)"

text \<open>
  \<^verbatim>\<open>executor.map(f, s)\<close> of the local pool, \<open>f\<close> being the proxy: every item is
  submitted at once, each task unpickles its own copy of the proxy and calls it in a
  worker, against that worker's registry. The results come back in the order of the
  items (the pool's contract), as a sequence whose elements are a value or the
  exception the task raised. A failed initializer breaks the pool.
\<close>

definition executor_map_local ::
  "module \<Rightarrow> host \<Rightarrow> ('a, 'b) world \<Rightarrow> int \<Rightarrow> int option \<Rightarrow> ('a, 'b) PicklableAndCallable
     \<Rightarrow> 'a list \<Rightarrow> (exn + (exn + 'b) list) \<times> ('a, 'b) world" where
  "executor_map_local M H w max_workers seed f s =
     (if s = [] then (Inr [], w)
      else case start_workers M H w max_workers seed of
          (Inl e, w') \<Rightarrow> (Inl e, w')
        | (Inr u, w') \<Rightarrow>
            (Inr (map (\<lambda>x. fst (PicklableAndCallable_call
                                   (worker_FUNCTIONS H (FUNCTIONS w)) f x)) s),
             w'\<lparr>submitted := submitted w' + length s\<rparr>))"

text \<open>
  \<^verbatim>\<open>executor.map(f, s)\<close> of the MPI pool: the function itself and the items are sent,
  and the outcome is whatever the workers deliver.
\<close>

definition executor_map_mpi ::
  "('a, 'b) world \<Rightarrow> int \<Rightarrow> int option \<Rightarrow> ('a, 'b) pyfunc \<Rightarrow> 'a list
     \<Rightarrow> (exn + (exn + 'b) list) \<times> ('a, 'b) world" where
  "executor_map_mpi w max_workers seed f s =
     (mpi_results w max_workers seed f s, w\<lparr>submitted := submitted w + length s\<rparr>)"

subsection \<open>imap (lines 77-136) and map (lines 139-140)\<close>

text \<open>The arguments of a call, bound to the parameters of \<^verbatim>\<open>imap\<close>.\<close>

record ('a, 'b) args =
  a_f :: "('a, 'b) pyfunc"
  a_s :: "'a list"
  a_max_workers :: "int option"
  a_use_mpi :: bool
  a_seed :: "int option"
  a_if_serial :: string

definition err_msg :: string where
  "err_msg = ''Execution in serial. For parallel MPI execution, use:'' @ [CHR 0x0A]
             @ '' $ mpirun -n 1 <executable script>''"

text \<open>
  \<^verbatim>\<open>COMM.Get_attr(MPI.UNIVERSE_SIZE)\<close> in the submitting process: the name \<^verbatim>\<open>COMM\<close> is
  looked up first, then the attribute of \<^verbatim>\<open>MPI\<close>.
\<close>

definition Get_attr_UNIVERSE_SIZE :: "module \<Rightarrow> exn + int option" where
  "Get_attr_UNIVERSE_SIZE M =
     (case COMM M of
        None \<Rightarrow> Inl (NameError ''COMM'')
      | Some c \<Rightarrow>
          if MPI M then Inr (UNIVERSE_SIZE c)
          else Inl (AttributeError ''UNIVERSE_SIZE''))"

text \<open>
  Lines 106-123, the body under \<^verbatim>\<open>if use_mpi:\<close> up to the loop over the results.
  \<open>policy\<close> is the lowered \<^verbatim>\<open>if_serial\<close>. The result is the exception raised on the way
  or the sequence the loop will walk.
\<close>

definition imap_mpi ::
  "module \<Rightarrow> ('a, 'b) world \<Rightarrow> ('a, 'b) args \<Rightarrow> string
     \<Rightarrow> (exn + (exn + 'b) list) \<times> ('a, 'b) world" where
  "imap_mpi M w a policy =
     (if \<not> USING_MPI M then (Inl (RuntimeError ''Cannot use MPI''), w)
      else
        (case Get_attr_UNIVERSE_SIZE M of
           Inl e \<Rightarrow> (Inl e, w)
         | Inr usize \<Rightarrow>
             (if usize = Some 1 \<and> policy = ''raise'' then (Inl (RuntimeError err_msg), w)
              else
                (case (if usize = Some 1 \<and> policy = ''warn''
                       then warnings_warn w [''UserWarning''] [(''msg'', err_msg)]
                       else Inr w) of
                   Inl e \<Rightarrow> (Inl e, w)
                 | Inr w1 \<Rightarrow>
                     (let dflt = (case usize of
                                    None \<Rightarrow> Inl (TypeError ''unsupported operand type(s) for -'')
                                  | Some u \<Rightarrow> Inr (u - 1))
                      in (case (case a_max_workers a of
                                  None \<Rightarrow> dflt
                                | Some n \<Rightarrow> (if n = 0 then dflt else Inr n)) of
                            Inl e \<Rightarrow> (Inl e, w1)
                          | Inr n \<Rightarrow>
                              (case MPIPoolExecutor w1 n of
                                 (Inl e, w2) \<Rightarrow> (Inl e, w2)
                               | (Inr executor, w2) \<Rightarrow>
                                   executor_map_mpi w2 executor (a_seed a) (a_f a)
                                     (a_s a))))))))"

text \<open>
  \<^verbatim>\<open>if not max_workers: max_workers = default\<close> (lines 126-127): \<^verbatim>\<open>None\<close> and 0 are
  both false and take the default.
\<close>

definition max_workers_or :: "int option \<Rightarrow> int \<Rightarrow> int" where
  "max_workers_or max_workers dflt =
     (case max_workers of
        None \<Rightarrow> dflt
      | Some n \<Rightarrow> (if n = 0 then dflt else n))"

text \<open>Lines 126-135, the body under \<^verbatim>\<open>else:\<close> up to the loop over the results.\<close>

definition imap_local ::
  "module \<Rightarrow> host \<Rightarrow> ('a, 'b) world \<Rightarrow> ('a, 'b) args
     \<Rightarrow> (exn + (exn + 'b) list) \<times> ('a, 'b) world" where
  "imap_local M H w a =
     (let n = max_workers_or (a_max_workers a) (cpu_count H - 1)
      in if \<not> n < cpu_count H then (Inl (AssertionError []), w)
         else
           (let k = ident (a_f a);
                w1 = w\<lparr>FUNCTIONS := (FUNCTIONS w)(k \<mapsto> call (a_f a))\<rparr>;
                proxy = PicklableAndCallable_init (ident (a_f a))
            in (case ProcessPoolExecutor w1 n of
                  (Inl e, w2) \<Rightarrow> (Inl e, w2)
                | (Inr executor, w2) \<Rightarrow>
                    executor_map_local M H w2 executor (a_seed a) proxy (a_s a))))"

text \<open>
  Lines 101-103 and the choice of the branch: the body of \<^verbatim>\<open>imap\<close> from its first
  statement to the first \<^verbatim>\<open>yield\<close>.
\<close>

definition imap_body ::
  "module \<Rightarrow> host \<Rightarrow> ('a, 'b) world \<Rightarrow> ('a, 'b) args
     \<Rightarrow> (exn + (exn + 'b) list) \<times> ('a, 'b) world" where
  "imap_body M H w a =
     (let policy = lower (a_if_serial a)
      in if policy \<notin> set [''ignore'', ''raise'', ''warn'']
         then (Inl (AssertionError (''invalid choice '' @ [CHR 0x27] @ policy @ [CHR 0x27])), w)
         else if a_use_mpi a then imap_mpi M w a policy
         else imap_local M H w a)"

text \<open>
  \<^verbatim>\<open>imap\<close> contains \<^verbatim>\<open>yield\<close>, so it is a generator function: a call binds the arguments
  and returns a generator that has run nothing. The generator is not started, or
  suspended inside the loop with the results still to come, or finished.
\<close>

datatype ('a, 'b) generator =
    Unstarted "('a, 'b) args"
  | Suspended "(exn + 'b) list"
  | Finished

definition imap ::
  "('a, 'b) world \<Rightarrow> ('a, 'b) pyfunc \<Rightarrow> 'a list \<Rightarrow> int option \<Rightarrow> bool \<Rightarrow> int option \<Rightarrow> string
     \<Rightarrow> ('a, 'b) generator \<times> ('a, 'b) world" where
  "imap w f s max_workers use_mpi seed if_serial =
     (Unstarted \<lparr>a_f = f, a_s = s, a_max_workers = max_workers, a_use_mpi = use_mpi,
                 a_seed = seed, a_if_serial = if_serial\<rparr>, w)"

text \<open>What one \<^verbatim>\<open>next\<close> on a generator gives its caller.\<close>

datatype 'b event = Yield 'b | StopIteration | Raise exn

text \<open>
  The loop \<^verbatim>\<open>for result in executor.map(f, s): yield result\<close> inside its \<^verbatim>\<open>with\<close>
  block: the next result is yielded, an exception of a task leaves the block and the
  generator, the end of the results ends the generator.
\<close>

fun resume :: "(exn + 'b) list \<Rightarrow> 'b event \<times> ('a, 'b) generator" where
  "resume [] = (StopIteration, Finished)"
| "resume (Inl e # rs) = (Raise e, Finished)"
| "resume (Inr v # rs) = (Yield v, Suspended rs)"

definition next_gen ::
  "module \<Rightarrow> host \<Rightarrow> ('a, 'b) world \<Rightarrow> ('a, 'b) generator
     \<Rightarrow> 'b event \<times> ('a, 'b) generator \<times> ('a, 'b) world" where
  "next_gen M H w g =
     (case g of
        Unstarted a \<Rightarrow>
          (case imap_body M H w a of
             (Inl e, w') \<Rightarrow> (Raise e, Finished, w')
           | (Inr rs, w') \<Rightarrow> (case resume rs of (ev, g') \<Rightarrow> (ev, g', w')))
      | Suspended rs \<Rightarrow> (case resume rs of (ev, g') \<Rightarrow> (ev, g', w))
      | Finished \<Rightarrow> (StopIteration, Finished, w))"

text \<open>
  \<^verbatim>\<open>list(g)\<close>: the generator is advanced until it stops; an exception on the way is the
  outcome and the values collected so far are dropped.
\<close>

definition list_gen ::
  "module \<Rightarrow> host \<Rightarrow> ('a, 'b) world \<Rightarrow> ('a, 'b) generator \<Rightarrow> (exn + 'b list) \<times> ('a, 'b) world" where
  "list_gen M H w g =
     (case g of
        Unstarted a \<Rightarrow>
          (case imap_body M H w a of
             (Inl e, w') \<Rightarrow> (Inl e, w')
           | (Inr rs, w') \<Rightarrow> (collect rs, w'))
      | Suspended rs \<Rightarrow> (collect rs, w)
      | Finished \<Rightarrow> (Inr [], w))"

text \<open>Line 140: \<^verbatim>\<open>list(imap(f, s, max_workers, use_mpi, seed, if_serial))\<close>.\<close>

definition map_py ::
  "module \<Rightarrow> host \<Rightarrow> ('a, 'b) world \<Rightarrow> ('a, 'b) pyfunc \<Rightarrow> 'a list \<Rightarrow> int option \<Rightarrow> bool
     \<Rightarrow> int option \<Rightarrow> string \<Rightarrow> (exn + 'b list) \<times> ('a, 'b) world" where
  "map_py M H w f s max_workers use_mpi seed if_serial =
     (case imap w f s max_workers use_mpi seed if_serial of
        (g, w') \<Rightarrow> list_gen M H w' g)"

subsection \<open>Example values\<close>

text \<open>
  Hosts without mpi4py: four cores and forked workers, four cores and spawned workers,
  sixteen cores and forked workers. Then the globals their import leaves, a fresh
  submitting process (with an MPI pool that would honour its contract) and the
  successor function on integers, living at address 7.
\<close>

definition ex_host :: host where
  "ex_host = \<lparr>DONT_USE_MPI = None, mpi4py = None, cpu_count = 4, time_time = 1000,
              start_method = Fork\<rparr>"


definition ex_host_16 :: host where
  "ex_host_16 = \<lparr>DONT_USE_MPI = None, mpi4py = None, cpu_count = 16, time_time = 1000,
                 start_method = Fork\<rparr>"

definition ex_module :: module where
  "ex_module = \<lparr>MPI = False, COMM = None, USING_MPI = False\<rparr>"

definition ex_world :: "(int, int) world" where
  "ex_world = \<lparr>FUNCTIONS = Map.empty, warnings = [], pool_calls = [], process_counter = 1,
               workers = [], submitted = 0,
               mpi_results = (\<lambda>n sd g xs. Inr (map (call g) xs))\<rparr>"

definition ex_fn :: "(int, int) pyfunc" where
  "ex_fn = \<lparr>ident = 7, call = (\<lambda>x. Inr (x + 1))\<rparr>"

text \<open>
  A host launched under MPI with a universe of \<open>u\<close> slots, and the globals its import
  leaves when \<open>u\<close> is not 1.
\<close>

definition ex_comm :: "int \<Rightarrow> comm" where
  "ex_comm u = \<lparr>UNIVERSE_SIZE = Some u, Get_size = 1, Get_rank = 0\<rparr>"

definition ex_host_mpi :: "int \<Rightarrow> host" where
  "ex_host_mpi u = \<lparr>DONT_USE_MPI = None, mpi4py = Some (ex_comm u), cpu_count = 4,
                    time_time = 1000, start_method = Fork\<rparr>"

definition ex_module_mpi :: "int \<Rightarrow> module" where
  "ex_module_mpi u = \<lparr>MPI = True, COMM = Some (ex_comm u), USING_MPI = True\<rparr>"

definition ex_items :: "int list" where
  "ex_items = [1, 2, 3, 4, 5, 6, 7, 8, 9, 10, 11]"

definition ex_process :: "string \<Rightarrow> process" where
  "ex_process nm = \<lparr>proc_COMM = None, proc_name = nm, proc_time = 1000, random_seed = None\<rparr>"

section \<open>Properties\<close>

subsection \<open>Strings and worker names\<close>

lemma lower_policies:
  "lower ''raise'' = ''raise''" "lower ''warn'' = ''warn''" "lower ''ignore'' = ''ignore''"
  by code_simp+

lemma int_of_char_digit: "d < 10 \<Longrightarrow> int_of_char (digit d) = Inr (int d)"
  by (simp add: int_of_char_def digit_def Let_def)

lemma str_nat_last: "str_nat n \<noteq> [] \<and> last (str_nat n) = digit (n mod 10)"
  by (subst str_nat.simps, subst str_nat.simps) simp

lemma worker_name_last: "worker_name H k \<noteq> [] \<and> last (worker_name H k) = digit (k mod 10)"
  by (simp add: worker_name_def str_nat_last)

text \<open>The rank of a pool process is the last digit of its number.\<close>

lemma rank_worker:
  "rank \<lparr>proc_COMM = c, proc_name = worker_name H k, proc_time = t, random_seed = r\<rparr> False
     = Inr (int (k mod 10))"
  by (simp add: rank_def Let_def worker_name_last int_of_char_digit)

lemma generate_seed_worker:
  "\<exists>p'. generate_seed
          \<lparr>proc_COMM = c, proc_name = worker_name H k, proc_time = t, random_seed = r\<rparr>
          False sd = Inr p'"
  by (simp add: generate_seed_def rank_worker split: option.splits)

subsection \<open>Collecting results\<close>

lemma collect_map_Inr: "collect (map (\<lambda>x. Inr (g x)) xs) = Inr (map g xs)"
  by (induction xs) simp_all

lemma collect_all_Inr:
  "(\<And>x. x \<in> set xs \<Longrightarrow> \<exists>y. x = Inr y) \<Longrightarrow> \<exists>ys. collect xs = Inr ys"
proof (induction xs)
  case Nil
  then show ?case by simp
next
  case (Cons x xs)
  then obtain y where "x = Inr y" by auto
  moreover from Cons obtain ys where "collect xs = Inr ys" by auto
  ultimately show ?case by simp
qed

lemma collect_all_Inl: "collect (map (\<lambda>x. Inl e) xs) = (if xs = [] then Inr [] else Inl e)"
  by (cases xs) simp_all

subsection \<open>The local pool\<close>

text \<open>
  The initializer succeeds in every process the pool starts, so the pool never breaks:
  the process numbered \<open>k\<close> stores the base plus the last digit of \<open>k\<close>.
\<close>

lemma generate_seed_pool_process:
  "generate_seed
     \<lparr>proc_COMM = c, proc_name = worker_name H k, proc_time = t, random_seed = None\<rparr> False sd
   = Inr \<lparr>proc_COMM = c, proc_name = worker_name H k, proc_time = t,
          random_seed = Some ((case sd of Some b \<Rightarrow> b | None \<Rightarrow> t) + int (k mod 10))\<rparr>"
  by (simp add: generate_seed_def rank_worker split: option.splits)

text \<open>Two pool processes whose numbers are ten apart store the same seed.\<close>

lemma pool_seeds_ten_apart:
  "worker_seed \<lparr>proc_COMM = c, proc_name = worker_name H (k + 10), proc_time = t,
                 random_seed = None\<rparr> False sd
   = worker_seed \<lparr>proc_COMM = c, proc_name = worker_name H k, proc_time = t,
                   random_seed = None\<rparr> False sd"
  by (simp add: worker_seed_def generate_seed_pool_process)

lemma start_workers_ok:
  "start_workers M H w n sd =
     (Inr (),
      w\<lparr>process_counter := process_counter w + nat n,
        workers := workers w @
          map (\<lambda>i. \<lparr>proc_COMM = COMM M, proc_name = worker_name H (process_counter w + i),
                     proc_time = time_time H,
                     random_seed = Some ((case sd of Some b \<Rightarrow> b | None \<Rightarrow> time_time H)
                                         + int ((process_counter w + i) mod 10))\<rparr>)
            [0..<nat n]\<rparr>)"
proof -
  have "map (\<lambda>nm. generate_seed
                    \<lparr>proc_COMM = COMM M, proc_name = nm,
                     proc_time = time_time H, random_seed = None\<rparr> False sd)
          (worker_names H (process_counter w) n)
        = map (\<lambda>i. Inr \<lparr>proc_COMM = COMM M, proc_name = worker_name H (process_counter w + i),
                         proc_time = time_time H,
                         random_seed = Some ((case sd of Some b \<Rightarrow> b | None \<Rightarrow> time_time H)
                                             + int ((process_counter w + i) mod 10))\<rparr>)
            [0..<nat n]"
    by (simp add: worker_names_def generate_seed_pool_process)
  then show ?thesis
    by (simp add: start_workers_def Let_def collect_map_Inr)
qed

lemma executor_map_local_ok:
  "\<exists>w'. executor_map_local M H w n sd p xs
          = (Inr (map (\<lambda>x. fst (PicklableAndCallable_call
                                   (worker_FUNCTIONS H (FUNCTIONS w)) p x)) xs), w')
        \<and> FUNCTIONS w' = FUNCTIONS w \<and> warnings w' = warnings w
        \<and> pool_calls w' = pool_calls w
        \<and> workers w' = workers w @
             (if xs = [] then []
              else map (\<lambda>i. \<lparr>proc_COMM = COMM M,
                              proc_name = worker_name H (process_counter w + i),
                              proc_time = time_time H,
                              random_seed =
                                Some ((case sd of Some b \<Rightarrow> b | None \<Rightarrow> time_time H)
                                      + int ((process_counter w + i) mod 10))\<rparr>)
                     [0..<nat n])"
  by (simp add: executor_map_local_def start_workers_ok)

text \<open>
  What a task gives in a worker: the function's result where the worker inherited the
  registry, the bare RuntimeError of line 73 where it did not.
\<close>

lemma proxy_call:
  "fst (PicklableAndCallable_call (worker_FUNCTIONS H (reg(k \<mapsto> g)))
          (PicklableAndCallable_init k) x)
     = (if start_method H = Fork then g x else Inl (RuntimeError []))"
  by (simp add: PicklableAndCallable_call_def PicklableAndCallable_init_def
      worker_FUNCTIONS_def split: start_method.splits)

subsection \<open>The three exits of the local branch\<close>

lemma imap_local_assert:
  "\<not> max_workers_or (a_max_workers a) (cpu_count H - 1) < cpu_count H
   \<Longrightarrow> imap_local M H w a = (Inl (AssertionError []), w)"
  by (simp add: imap_local_def)

lemma imap_local_nonpos:
  assumes "max_workers_or (a_max_workers a) (cpu_count H - 1) = n"
    and "n < cpu_count H" and "n \<le> 0"
  shows "imap_local M H w a =
           (Inl (ValueError ''max_workers must be greater than 0''),
            w\<lparr>FUNCTIONS := (FUNCTIONS w)(ident (a_f a) \<mapsto> call (a_f a)),
              pool_calls := pool_calls w @ [(LOCAL, n)]\<rparr>)"
  using assms by (simp add: imap_local_def ProcessPoolExecutor_def Let_def)

lemma imap_local_ok:
  assumes "max_workers_or (a_max_workers a) (cpu_count H - 1) = n"
    and "n < cpu_count H" and "0 < n"
  shows "\<exists>w'. imap_local M H w a =
          (Inr (map (\<lambda>x. if start_method H = Fork then call (a_f a) x
                          else Inl (RuntimeError [])) (a_s a)), w')
      \<and> FUNCTIONS w' = (FUNCTIONS w)(ident (a_f a) \<mapsto> call (a_f a))
      \<and> warnings w' = warnings w \<and> pool_calls w' = pool_calls w @ [(LOCAL, n)]
      \<and> workers w' = workers w @
           (if a_s a = [] then []
            else map (\<lambda>i. \<lparr>proc_COMM = COMM M,
                            proc_name = worker_name H (process_counter w + i),
                            proc_time = time_time H,
                            random_seed =
                              Some ((case a_seed a of Some b \<Rightarrow> b | None \<Rightarrow> time_time H)
                                    + int ((process_counter w + i) mod 10))\<rparr>)
                   [0..<nat n])"
proof -
  let ?w1 = "w\<lparr>FUNCTIONS := (FUNCTIONS w)(ident (a_f a) \<mapsto> call (a_f a))\<rparr>"
  let ?w2 = "?w1\<lparr>pool_calls := pool_calls ?w1 @ [(LOCAL, n)]\<rparr>"
  let ?p = "PicklableAndCallable_init (ident (a_f a)) :: ('a, 'b) PicklableAndCallable"
  obtain w' where w': "executor_map_local M H ?w2 n (a_seed a) ?p (a_s a)
        = (Inr (map (\<lambda>x. fst (PicklableAndCallable_call
                                 (worker_FUNCTIONS H (FUNCTIONS ?w2)) ?p x)) (a_s a)), w')"
      "FUNCTIONS w' = FUNCTIONS ?w2" "warnings w' = warnings ?w2"
      "pool_calls w' = pool_calls ?w2"
      "workers w' = workers ?w2 @
           (if a_s a = [] then []
            else map (\<lambda>i. \<lparr>proc_COMM = COMM M,
                            proc_name = worker_name H (process_counter ?w2 + i),
                            proc_time = time_time H,
                            random_seed =
                              Some ((case a_seed a of Some b \<Rightarrow> b | None \<Rightarrow> time_time H)
                                    + int ((process_counter ?w2 + i) mod 10))\<rparr>)
                   [0..<nat n])"
    using executor_map_local_ok [of M H ?w2 n "a_seed a" ?p "a_s a"] by blast
  have "(\<lambda>x. fst (PicklableAndCallable_call (worker_FUNCTIONS H (FUNCTIONS ?w2)) ?p x))
          = (\<lambda>x. if start_method H = Fork then call (a_f a) x else Inl (RuntimeError []))"
    by (rule ext) (simp add: proxy_call)
  with w' assms show ?thesis
    by (simp add: imap_local_def ProcessPoolExecutor_def Let_def)
qed

subsection \<open>The policy check and the generator\<close>

lemma imap_body_invalid:
  "lower (a_if_serial a) \<notin> set [''ignore'', ''raise'', ''warn'']
   \<Longrightarrow> imap_body M H w a =
         (Inl (AssertionError
                 (''invalid choice '' @ [CHR 0x27] @ lower (a_if_serial a) @ [CHR 0x27])), w)"
  by (simp add: imap_body_def Let_def)

lemma imap_body_valid:
  "lower (a_if_serial a) \<in> set [''ignore'', ''raise'', ''warn'']
   \<Longrightarrow> imap_body M H w a =
         (if a_use_mpi a then imap_mpi M w a (lower (a_if_serial a)) else imap_local M H w a)"
  by (auto simp: imap_body_def Let_def)

text \<open>\<^verbatim>\<open>map\<close> runs the body and collects what the loop yields.\<close>

lemma map_py_body:
  "map_py M H w fn xs mw um sd pol =
     (case imap_body M H w \<lparr>a_f = fn, a_s = xs, a_max_workers = mw, a_use_mpi = um,
                              a_seed = sd, a_if_serial = pol\<rparr> of
        (Inl e, w') \<Rightarrow> (Inl e, w')
      | (Inr rs, w') \<Rightarrow> (collect rs, w'))"
  by (simp add: map_py_def imap_def list_gen_def)

text \<open>\<^verbatim>\<open>list\<close> is the iteration of \<^verbatim>\<open>next\<close>.\<close>

lemma list_gen_next:
  fixes w :: "('a, 'b) world"
  shows "list_gen M H w g =
     (case next_gen M H w g of
        (StopIteration, g', w') \<Rightarrow> (Inr [], w')
      | (Raise e, g', w') \<Rightarrow> (Inl e, w')
      | (Yield v, g', w') \<Rightarrow>
          (case list_gen M H w' g' of
             (Inl e, w'') \<Rightarrow> (Inl e, w'')
           | (Inr vs, w'') \<Rightarrow> (Inr (v # vs), w'')))"
proof -
  have *: "(collect rs, w1) =
     (case resume rs of
        (StopIteration, g') \<Rightarrow> (Inr [], w1)
      | (Raise e, g') \<Rightarrow> (Inl e, w1)
      | (Yield v, g') \<Rightarrow>
          (case list_gen M H w1 g' of
             (Inl e, w'') \<Rightarrow> (Inl e, w'')
           | (Inr vs, w'') \<Rightarrow> (Inr (v # vs), w'')))" for rs :: "(exn + 'b) list" and w1 :: "('a, 'b) world"
    by (cases rs rule: resume.cases) (simp_all add: list_gen_def split: sum.splits)
  show ?thesis
  proof (cases g)
    case (Unstarted a)
    obtain r w1 where b: "imap_body M H w a = (r, w1)"
      by (cases "imap_body M H w a")
    show ?thesis
    proof (cases r)
      case (Inl e)
      with Unstarted b show ?thesis by (simp add: list_gen_def next_gen_def)
    next
      case (Inr rs)
      with Unstarted b have "list_gen M H w g = (collect rs, w1)"
        by (simp add: list_gen_def)
      moreover from Unstarted b Inr
      have "next_gen M H w g = (case resume rs of (ev, g') \<Rightarrow> (ev, g', w1))"
        by (simp add: next_gen_def)
      ultimately show ?thesis
        using * [of rs w1] by (auto split: prod.splits event.splits)
    qed
  next
    case (Suspended rs)
    then have "list_gen M H w g = (collect rs, w)"
      by (simp add: list_gen_def)
    moreover from Suspended
    have "next_gen M H w g = (case resume rs of (ev, g') \<Rightarrow> (ev, g', w))"
      by (simp add: next_gen_def)
    ultimately show ?thesis
      using * [of rs w] by (auto split: prod.splits event.splits)
  next
    case Finished
    then show ?thesis by (simp add: list_gen_def next_gen_def)
  qed
qed

subsection \<open>Failures of the first advance\<close>

lemma next_gen_raise:
  "imap_body M H w a = (Inl e, w') \<Longrightarrow> next_gen M H w (Unstarted a) = (Raise e, Finished, w')"
  by (simp add: next_gen_def)

lemma list_gen_raise:
  "imap_body M H w a = (Inl e, w') \<Longrightarrow> list_gen M H w (Unstarted a) = (Inl e, w')"
  by (simp add: list_gen_def)

lemma imap_mpi_unavailable:
  "\<not> USING_MPI M \<Longrightarrow> imap_mpi M w a policy = (Inl (RuntimeError ''Cannot use MPI''), w)"
  by (simp add: imap_mpi_def)

text \<open>When the import succeeds, \<^verbatim>\<open>USING_MPI\<close> says that mpi4py was wanted, was there and
  reported a universe other than one slot.\<close>

lemma module_init_USING_MPI:
  assumes "module_init H = Inr M"
  shows "USING_MPI M \<longleftrightarrow>
           \<not> environ_truthy (DONT_USE_MPI H)
           \<and> (\<exists>c. mpi4py H = Some c \<and> UNIVERSE_SIZE c \<noteq> Some 1 \<and> COMM M = Some c \<and> MPI M)"
  using assms
  by (auto simp: module_init_def split: if_splits option.splits)

subsection \<open>What a call through the local branch does\<close>

lemma map_py_local_ok:
  assumes "lower pol \<in> {''raise'', ''warn'', ''ignore''}"
    and "max_workers_or mw (cpu_count H - 1) = n" and "n < cpu_count H" and "0 < n"
  shows "\<exists>w'. map_py M H w fn xs mw False sd pol =
          ((if start_method H = Fork \<or> xs = [] then list_comprehension (call fn) xs
            else Inl (RuntimeError [])), w')
      \<and> FUNCTIONS w' = (FUNCTIONS w)(ident fn \<mapsto> call fn)
      \<and> warnings w' = warnings w \<and> pool_calls w' = pool_calls w @ [(LOCAL, n)]
      \<and> workers w' = workers w @
           (if xs = [] then []
            else map (\<lambda>i. \<lparr>proc_COMM = COMM M,
                            proc_name = worker_name H (process_counter w + i),
                            proc_time = time_time H,
                            random_seed =
                              Some ((case sd of Some b \<Rightarrow> b | None \<Rightarrow> time_time H)
                                    + int ((process_counter w + i) mod 10))\<rparr>)
                   [0..<nat n])"
proof -
  let ?a = "\<lparr>a_f = fn, a_s = xs, a_max_workers = mw, a_use_mpi = False,
             a_seed = sd, a_if_serial = pol\<rparr>"
  have body: "imap_body M H w ?a = imap_local M H w ?a"
    using assms(1) imap_body_valid [of ?a M H w] by auto
  obtain w' where w': "imap_local M H w ?a =
          (Inr (map (\<lambda>x. if start_method H = Fork then call fn x
                          else Inl (RuntimeError [])) xs), w')"
    "FUNCTIONS w' = (FUNCTIONS w)(ident fn \<mapsto> call fn)"
    "warnings w' = warnings w" "pool_calls w' = pool_calls w @ [(LOCAL, n)]"
    "workers w' = workers w @
           (if xs = [] then []
            else map (\<lambda>i. \<lparr>proc_COMM = COMM M,
                            proc_name = worker_name H (process_counter w + i),
                            proc_time = time_time H,
                            random_seed =
                              Some ((case sd of Some b \<Rightarrow> b | None \<Rightarrow> time_time H)
                                    + int ((process_counter w + i) mod 10))\<rparr>)
                   [0..<nat n])"
    using imap_local_ok [of ?a H n M w] assms by auto
  have "collect (map (\<lambda>x. if start_method H = Fork then call fn x
                           else Inl (RuntimeError [])) xs)
          = (if start_method H = Fork \<or> xs = [] then list_comprehension (call fn) xs
             else Inl (RuntimeError []))"
    by (simp add: list_comprehension_def collect_all_Inl)
  with body w' show ?thesis
    by (simp add: map_py_body)
qed

lemma map_py_local_nonpos:
  assumes "lower pol \<in> {''raise'', ''warn'', ''ignore''}"
    and "max_workers_or mw (cpu_count H - 1) = n" and "n < cpu_count H" and "n \<le> 0"
  shows "map_py M H w fn xs mw False sd pol =
           (Inl (ValueError ''max_workers must be greater than 0''),
            w\<lparr>FUNCTIONS := (FUNCTIONS w)(ident fn \<mapsto> call fn),
              pool_calls := pool_calls w @ [(LOCAL, n)]\<rparr>)"
proof -
  let ?a = "\<lparr>a_f = fn, a_s = xs, a_max_workers = mw, a_use_mpi = False,
             a_seed = sd, a_if_serial = pol\<rparr>"
  have "imap_body M H w ?a = imap_local M H w ?a"
    using assms(1) imap_body_valid [of ?a M H w] by auto
  then show ?thesis
    using imap_local_nonpos [of ?a H n M w] assms by (simp add: map_py_body)
qed

lemma map_py_local_assert:
  assumes "lower pol \<in> {''raise'', ''warn'', ''ignore''}"
    and "\<not> max_workers_or mw (cpu_count H - 1) < cpu_count H"
  shows "map_py M H w fn xs mw False sd pol = (Inl (AssertionError []), w)"
proof -
  let ?a = "\<lparr>a_f = fn, a_s = xs, a_max_workers = mw, a_use_mpi = False,
             a_seed = sd, a_if_serial = pol\<rparr>"
  have "imap_body M H w ?a = imap_local M H w ?a"
    using assms(1) imap_body_valid [of ?a M H w] by auto
  then show ?thesis
    using imap_local_assert [of ?a H M w] assms by (simp add: map_py_body)
qed

lemma map_py_invalid:
  assumes "lower pol \<notin> {''raise'', ''warn'', ''ignore''}"
  shows "map_py M H w fn xs mw um sd pol =
           (Inl (AssertionError (''invalid choice '' @ [CHR 0x27] @ lower pol @ [CHR 0x27])), w)"
proof -
  let ?a = "\<lparr>a_f = fn, a_s = xs, a_max_workers = mw, a_use_mpi = um,
             a_seed = sd, a_if_serial = pol\<rparr>"
  show ?thesis
    using assms imap_body_invalid [of ?a M H w] by (simp add: map_py_body)
qed

subsection \<open>Ranks and seeds\<close>

lemma digit_chars:
  "char_of (48::nat) = CHR ''0''" "char_of (49::nat) = CHR ''1''" "char_of (50::nat) = CHR ''2''"
  "char_of (51::nat) = CHR ''3''" "char_of (52::nat) = CHR ''4''" "char_of (53::nat) = CHR ''5''"
  "char_of (54::nat) = CHR ''6''" "char_of (55::nat) = CHR ''7''" "char_of (56::nat) = CHR ''8''"
  "char_of (57::nat) = CHR ''9''"
  by code_simp+

lemma is_digit_iff:
  "(48 \<le> (of_char c :: nat) \<and> (of_char c :: nat) \<le> 57) \<longleftrightarrow> c \<in> set ''0123456789''"
proof
  assume a: "48 \<le> (of_char c :: nat) \<and> (of_char c :: nat) \<le> 57"
  have "n \<in> {48, 49, 50, 51, 52, 53, 54, 55, 56, 57}" if "48 \<le> n" "n \<le> 57" for n :: nat
    using that by (simp del: One_nat_def) arith
  with a have "(of_char c :: nat) \<in> {48, 49, 50, 51, 52, 53, 54, 55, 56, 57}"
    by blast
  moreover have "c = char_of (of_char c :: nat)" by simp
  ultimately have "c \<in> char_of ` {48::nat, 49, 50, 51, 52, 53, 54, 55, 56, 57}"
    by (metis imageI)
  then show "c \<in> set ''0123456789''"
    by (auto simp: digit_chars)
next
  assume "c \<in> set ''0123456789''"
  then show "48 \<le> (of_char c :: nat) \<and> (of_char c :: nat) \<le> 57"
    by auto
qed

lemma int_of_char_Inr_iff: "(\<exists>r. int_of_char c = Inr r) \<longleftrightarrow> c \<in> set ''0123456789''"
  using is_digit_iff [of c] by (auto simp: int_of_char_def Let_def)

lemma rank_Inr_iff:
  "(\<exists>r. rank p um = Inr r) \<longleftrightarrow>
     (if um then proc_COMM p \<noteq> None
      else proc_name p \<noteq> [] \<and> last (proc_name p) \<in> set ''0123456789'')"
  using int_of_char_Inr_iff [of "last (proc_name p)"]
  by (auto simp: rank_def Let_def split: option.splits)

lemma generate_seed_rank:
  "rank p um = Inr r \<Longrightarrow>
   generate_seed p um sd =
     Inr (p\<lparr>random_seed := Some ((case sd of Some b \<Rightarrow> b | None \<Rightarrow> proc_time p) + r)\<rparr>)"
  by (simp add: generate_seed_def split: option.splits)

lemma generate_seed_raises: "rank p um = Inl e \<Longrightarrow> generate_seed p um sd = Inl e"
  by (simp add: generate_seed_def)

lemma worker_seed_rank: "rank p um = Inr r \<Longrightarrow> worker_seed p um (Some b) = Some (b + r)"
  by (simp add: worker_seed_def generate_seed_rank)

subsection \<open>The MPI branch\<close>

lemma warnings_warn_msg:
  "warnings_warn w [''UserWarning''] [(''msg'', m)] =
     Inl (TypeError ''warn() got an unexpected keyword argument msg'')"
  by (simp add: warnings_warn_def)

text \<open>One slot and the policy \<^verbatim>\<open>raise\<close>: line 114.\<close>

lemma imap_mpi_serial_raise:
  assumes "USING_MPI M" and "MPI M" and "COMM M = Some c" and "UNIVERSE_SIZE c = Some 1"
  shows "imap_mpi M w a ''raise'' = (Inl (RuntimeError err_msg), w)"
  using assms by (simp add: imap_mpi_def Get_attr_UNIVERSE_SIZE_def)

text \<open>
  One slot and the policy \<^verbatim>\<open>warn\<close>: line 116 passes \<^verbatim>\<open>msg=\<close>, a keyword that
  \<^verbatim>\<open>warnings.warn\<close> does not have, so the call raises TypeError and no warning is
  emitted.
\<close>

lemma imap_mpi_serial_warn:
  assumes "USING_MPI M" and "MPI M" and "COMM M = Some c" and "UNIVERSE_SIZE c = Some 1"
  shows "imap_mpi M w a ''warn'' =
           (Inl (TypeError ''warn() got an unexpected keyword argument msg''), w)"
  using assms by (simp add: imap_mpi_def Get_attr_UNIVERSE_SIZE_def warnings_warn_msg)

text \<open>Past lines 113-116 the pool is constructed with the supplied or the default count.\<close>

lemma imap_mpi_pool:
  assumes "USING_MPI M" and "MPI M" and "COMM M = Some c" and "UNIVERSE_SIZE c = Some u"
    and "u = 1 \<longrightarrow> policy = ''ignore''"
    and "max_workers_or (a_max_workers a) (u - 1) = n"
  shows "imap_mpi M w a policy =
           (if n \<le> 0
            then (Inl (ValueError ''max_workers must be greater than 0''),
                  w\<lparr>pool_calls := pool_calls w @ [(DISTRIBUTED, n)]\<rparr>)
            else (mpi_results w n (a_seed a) (a_f a) (a_s a),
                  w\<lparr>pool_calls := pool_calls w @ [(DISTRIBUTED, n)],
                    submitted := submitted w + length (a_s a)\<rparr>))"
proof -
  have skip: "\<not> (Some u = Some 1 \<and> policy = ''raise'')" "\<not> (Some u = Some 1 \<and> policy = ''warn'')"
    using assms(5) by auto
  have n: "(case a_max_workers a of None \<Rightarrow> Inr (u - 1)
            | Some k \<Rightarrow> (if k = 0 then Inr (u - 1) else Inr k)) = (Inr n :: exn + int)"
    using assms(6) by (auto simp: max_workers_or_def split: option.splits)
  have "imap_mpi M w a policy =
          (case MPIPoolExecutor w n of
             (Inl e, w2) \<Rightarrow> (Inl e, w2)
           | (Inr executor, w2) \<Rightarrow> executor_map_mpi w2 executor (a_seed a) (a_f a) (a_s a))"
    using assms(1-4) skip n
    by (auto simp: imap_mpi_def Get_attr_UNIVERSE_SIZE_def Let_def)
  then show ?thesis
    by (simp add: MPIPoolExecutor_def executor_map_mpi_def Let_def)
qed

text \<open>The MPI branch never touches the registry.\<close>

lemma imap_mpi_registry: "FUNCTIONS (snd (imap_mpi M w a policy)) = FUNCTIONS w"
  by (auto simp: imap_mpi_def warnings_warn_def MPIPoolExecutor_def executor_map_mpi_def
      Let_def split: sum.splits option.splits list.splits if_splits)

subsection \<open>The registry after a call\<close>

lemma imap_local_registry:
  "FUNCTIONS (snd (imap_local M H w a)) =
     (if max_workers_or (a_max_workers a) (cpu_count H - 1) < cpu_count H
      then (FUNCTIONS w)(ident (a_f a) \<mapsto> call (a_f a)) else FUNCTIONS w)"
proof (cases "max_workers_or (a_max_workers a) (cpu_count H - 1) < cpu_count H")
  case False
  then show ?thesis by (simp add: imap_local_assert)
next
  case True
  show ?thesis
  proof (cases "0 < max_workers_or (a_max_workers a) (cpu_count H - 1)")
    case pos: True
    obtain r w' where "imap_local M H w a = (r, w')"
      "FUNCTIONS w' = (FUNCTIONS w)(ident (a_f a) \<mapsto> call (a_f a))"
      using imap_local_ok [OF refl True pos, of M w] by blast
    with True show ?thesis by simp
  next
    case False
    then have "max_workers_or (a_max_workers a) (cpu_count H - 1) \<le> 0" by simp
    from imap_local_nonpos [OF refl True this, of M w] True show ?thesis by simp
  qed
qed

lemma imap_body_registry:
  "FUNCTIONS (snd (imap_body M H w a)) =
     (if lower (a_if_serial a) \<in> {''raise'', ''warn'', ''ignore''} \<and> \<not> a_use_mpi a
         \<and> max_workers_or (a_max_workers a) (cpu_count H - 1) < cpu_count H
      then (FUNCTIONS w)(ident (a_f a) \<mapsto> call (a_f a)) else FUNCTIONS w)"
proof (cases "lower (a_if_serial a) \<in> set [''ignore'', ''raise'', ''warn'']")
  case False
  then show ?thesis
    using imap_body_invalid [of a M H w] by auto
next
  case True
  then show ?thesis
    using imap_body_valid [of a M H w]
    by (auto simp: imap_mpi_registry imap_local_registry)
qed

lemma map_py_registry:
  "FUNCTIONS (snd (map_py M H w fn xs mw um sd pol)) =
     (if lower pol \<in> {''raise'', ''warn'', ''ignore''} \<and> \<not> um
         \<and> max_workers_or mw (cpu_count H - 1) < cpu_count H
      then (FUNCTIONS w)(ident fn \<mapsto> call fn) else FUNCTIONS w)"
proof -
  let ?a = "\<lparr>a_f = fn, a_s = xs, a_max_workers = mw, a_use_mpi = um,
             a_seed = sd, a_if_serial = pol\<rparr>"
  have "FUNCTIONS (snd (map_py M H w fn xs mw um sd pol)) = FUNCTIONS (snd (imap_body M H w ?a))"
    by (simp add: map_py_body split: prod.splits sum.splits)
  then show ?thesis
    using imap_body_registry [of M H w ?a] by simp
qed

subsection \<open>Zero workers and no workers\<close>

lemma imap_body_zero:
  "imap_body M H w (a\<lparr>a_max_workers := Some 0\<rparr>) = imap_body M H w (a\<lparr>a_max_workers := None\<rparr>)"
  by (simp add: imap_body_def imap_local_def imap_mpi_def max_workers_or_def
      cong: if_cong sum.case_cong)

lemma map_py_zero:
  "map_py M H w fn xs (Some 0) um sd pol = map_py M H w fn xs None um sd pol"
  using imap_body_zero
          [of M H w "\<lparr>a_f = fn, a_s = xs, a_max_workers = None, a_use_mpi = um,
                      a_seed = sd, a_if_serial = pol\<rparr>"]
  by (simp add: map_py_body)

lemma next_gen_zero:
  "next_gen M H w (fst (imap w fn xs (Some 0) um sd pol))
     = next_gen M H w (fst (imap w fn xs None um sd pol))"
  using imap_body_zero
          [of M H w "\<lparr>a_f = fn, a_s = xs, a_max_workers = None, a_use_mpi = um,
                      a_seed = sd, a_if_serial = pol\<rparr>"]
  by (simp add: next_gen_def imap_def)

subsection \<open>What a call through the MPI branch does\<close>

lemma map_py_world: "snd (map_py M H w fn xs mw um sd pol)
    = snd (imap_body M H w \<lparr>a_f = fn, a_s = xs, a_max_workers = mw, a_use_mpi = um,
                             a_seed = sd, a_if_serial = pol\<rparr>)"
  by (simp add: map_py_body split: prod.splits sum.splits)

lemma map_py_mpi_pool_calls:
  assumes "lower pol \<in> {''raise'', ''warn'', ''ignore''}"
    and "USING_MPI M" and "MPI M" and "COMM M = Some c" and "UNIVERSE_SIZE c = Some u"
    and "u = 1 \<longrightarrow> lower pol = ''ignore''"
    and "max_workers_or mw (u - 1) = n"
  shows "pool_calls (snd (map_py M H w fn xs mw True sd pol))
           = pool_calls w @ [(DISTRIBUTED, n)]"
proof -
  let ?a = "\<lparr>a_f = fn, a_s = xs, a_max_workers = mw, a_use_mpi = True,
             a_seed = sd, a_if_serial = pol\<rparr>"
  have "imap_body M H w ?a = imap_mpi M w ?a (lower pol)"
    using assms(1) imap_body_valid [of ?a M H w] by auto
  then show ?thesis
    using imap_mpi_pool [of M c u "lower pol" ?a n w] assms(2-7)
    by (simp add: map_py_world)
qed

text \<open>
  The branch of lines 113-116 is dead: after a successful import \<^verbatim>\<open>USING_MPI\<close> is never
  true together with a universe of one slot.
\<close>

lemma module_init_never_one_slot:
  assumes "module_init H = Inr M" and "USING_MPI M" and "COMM M = Some c"
  shows "UNIVERSE_SIZE c \<noteq> Some 1"
  using assms by (auto simp: module_init_def split: if_splits option.splits)

lemma map_py_mpi_unavailable:
  assumes "lower pol \<in> {''raise'', ''warn'', ''ignore''}" and "\<not> USING_MPI M"
  shows "map_py M H w fn xs mw True sd pol = (Inl (RuntimeError ''Cannot use MPI''), w)"
proof -
  let ?a = "\<lparr>a_f = fn, a_s = xs, a_max_workers = mw, a_use_mpi = True,
             a_seed = sd, a_if_serial = pol\<rparr>"
  have "imap_body M H w ?a = (Inl (RuntimeError ''Cannot use MPI''), w)"
    using assms imap_body_valid [of ?a M H w] by (auto simp: imap_mpi_unavailable)
  then show ?thesis
    by (simp add: map_py_body)
qed

text \<open>A universe of one slot at import leaves \<^verbatim>\<open>USING_MPI\<close> false.\<close>

lemma module_init_one_slot:
  assumes "module_init H = Inr M" and "mpi4py H = Some c" and "UNIVERSE_SIZE c = Some 1"
  shows "\<not> USING_MPI M"
  using assms by (auto simp: module_init_def split: if_splits)

section \<open>The claims\<close>




text \<open>
  C2, as amended. The policy is compared after lowering, so only a value whose
  lower-case form is none of \<^verbatim>\<open>raise\<close>, \<^verbatim>\<open>warn\<close>, \<^verbatim>\<open>ignore\<close> is rejected. A call of
  \<^verbatim>\<open>imap\<close> then still returns a generator; its first advance, and the call of \<^verbatim>\<open>map\<close>,
  fail with the AssertionError of line 102, and nothing has changed by then: no
  registry entry, no executor constructed, no worker process, no item submitted.
\<close>

theorem invalid_policy_fails_before_any_worker:
  assumes "lower pol \<notin> {''raise'', ''warn'', ''ignore''}"
  shows "map_py M H w fn xs mw um sd pol =
           (Inl (AssertionError (''invalid choice '' @ [CHR 0x27] @ lower pol @ [CHR 0x27])), w)
       \<and> snd (imap w fn xs mw um sd pol) = w
       \<and> next_gen M H w (fst (imap w fn xs mw um sd pol)) =
           (Raise (AssertionError (''invalid choice '' @ [CHR 0x27] @ lower pol @ [CHR 0x27])),
            Finished, w)"
proof -
  let ?a = "\<lparr>a_f = fn, a_s = xs, a_max_workers = mw, a_use_mpi = um,
             a_seed = sd, a_if_serial = pol\<rparr>"
  have "imap_body M H w ?a =
          (Inl (AssertionError (''invalid choice '' @ [CHR 0x27] @ lower pol @ [CHR 0x27])), w)"
    using assms imap_body_invalid [of ?a M H w] by auto
  then show ?thesis
    by (simp add: map_py_body imap_def next_gen_raise)
qed

theorem invalid_policy_fails_before_any_worker_witness:
  "lower ''bogus'' \<notin> {''raise'', ''warn'', ''ignore''}
   \<and> fst (map_py ex_module ex_host ex_world ex_fn [10, 20, 30] (Some 2) False None ''bogus'')
       = Inl (AssertionError (''invalid choice '' @ [CHR 0x27] @ ''bogus'' @ [CHR 0x27]))
   \<and> pool_calls (snd (map_py ex_module ex_host ex_world ex_fn [10, 20, 30] (Some 2) False
                        None ''bogus'')) = []
   \<and> workers (snd (map_py ex_module ex_host ex_world ex_fn [10, 20, 30] (Some 2) False
                     None ''bogus'')) = []"
proof -
  have l: "lower ''bogus'' = ''bogus''" by code_simp
  then have h: "lower ''bogus'' \<notin> {''raise'', ''warn'', ''ignore''}" by simp
  show ?thesis
    using h invalid_policy_fails_before_any_worker
            [OF h, of ex_module ex_host ex_world ex_fn "[10, 20, 30]" "Some 2" False None]
    by (simp add: l ex_world_def)
qed

text \<open>
  The claim as stated fails twice: the policy \<^verbatim>\<open>RAISE\<close> is none of the three values and
  \<^verbatim>\<open>map\<close> accepts it; and a call of \<^verbatim>\<open>imap\<close> with the policy \<^verbatim>\<open>bogus\<close> does not fail, it
  returns an unstarted generator and leaves everything as it was.
\<close>

theorem invalid_policy_counterexample:
  "''RAISE'' \<notin> {''raise'', ''warn'', ''ignore''}
   \<and> fst (map_py ex_module ex_host ex_world ex_fn [10, 20, 30] (Some 2) False None ''RAISE'')
       = Inr [11, 21, 31]
   \<and> (case imap ex_world ex_fn [10, 20, 30] (Some 2) False None ''bogus'' of
        (Unstarted a, w) \<Rightarrow> w = ex_world
      | (Suspended rs, w) \<Rightarrow> False
      | (Finished, w) \<Rightarrow> False)"
proof (intro conjI)
  show "''RAISE'' \<notin> {''raise'', ''warn'', ''ignore''}" by simp
  have "lower ''RAISE'' = ''raise''" by code_simp
  then show "fst (map_py ex_module ex_host ex_world ex_fn [10, 20, 30] (Some 2) False None
                   ''RAISE'') = Inr [11, 21, 31]"
    using map_py_local_ok [of "''RAISE''" "Some 2" ex_host 2 ex_module ex_world ex_fn
                              "[10, 20, 30]" None]
    by (auto simp: max_workers_or_def ex_host_def ex_fn_def list_comprehension_def)
  show "case imap ex_world ex_fn [10, 20, 30] (Some 2) False None ''bogus'' of
          (Unstarted a, w) \<Rightarrow> w = ex_world
        | (Suspended rs, w) \<Rightarrow> False
        | (Finished, w) \<Rightarrow> False"
    by (simp add: imap_def)
qed

text \<open>
  C8, as amended. A call that asks for MPI while \<^verbatim>\<open>USING_MPI\<close> is false, with a policy
  that passes the check of line 102, fails with \<^verbatim>\<open>RuntimeError('Cannot use MPI')\<close>: at
  the call for \<^verbatim>\<open>map\<close>, at the first advance for the generator of \<^verbatim>\<open>imap\<close>. Nothing is
  submitted and nothing else has changed.
\<close>

theorem mpi_unavailable_fails:
  assumes "\<not> USING_MPI M" and "lower pol \<in> {''raise'', ''warn'', ''ignore''}"
  shows "map_py M H w fn xs mw True sd pol = (Inl (RuntimeError ''Cannot use MPI''), w)
       \<and> next_gen M H w (fst (imap w fn xs mw True sd pol)) =
           (Raise (RuntimeError ''Cannot use MPI''), Finished, w)"
proof -
  let ?a = "\<lparr>a_f = fn, a_s = xs, a_max_workers = mw, a_use_mpi = True,
             a_seed = sd, a_if_serial = pol\<rparr>"
  have "imap_body M H w ?a = (Inl (RuntimeError ''Cannot use MPI''), w)"
    using assms imap_body_valid [of ?a M H w] by (auto simp: imap_mpi_unavailable)
  then show ?thesis
    by (simp add: map_py_body imap_def next_gen_raise)
qed

theorem mpi_unavailable_fails_witness:
  "\<not> USING_MPI ex_module \<and> lower ''raise'' \<in> {''raise'', ''warn'', ''ignore''}
   \<and> fst (map_py ex_module ex_host ex_world ex_fn [10, 20, 30] None True None ''raise'')
       = Inl (RuntimeError ''Cannot use MPI'')
   \<and> submitted (snd (map_py ex_module ex_host ex_world ex_fn [10, 20, 30] None True None
                       ''raise'')) = 0"
proof -
  have h1: "\<not> USING_MPI ex_module" by (simp add: ex_module_def)
  have h2: "lower ''raise'' \<in> {''raise'', ''warn'', ''ignore''}" by (simp add: lower_policies)
  show ?thesis
    using h1 h2 mpi_unavailable_fails
                  [OF h1 h2, of ex_host ex_world ex_fn "[10, 20, 30]" None None]
    by (simp add: ex_world_def)
qed

text \<open>
  The claim as stated fails for a call whose policy is invalid as well: the policy is
  checked first, and the failure is the AssertionError of line 102.
\<close>

theorem mpi_unavailable_counterexample:
  "\<not> USING_MPI ex_module
   \<and> fst (map_py ex_module ex_host ex_world ex_fn [10, 20, 30] None True None ''bogus'')
       = Inl (AssertionError (''invalid choice '' @ [CHR 0x27] @ ''bogus'' @ [CHR 0x27]))
   \<and> fst (map_py ex_module ex_host ex_world ex_fn [10, 20, 30] None True None ''bogus'')
       \<noteq> Inl (RuntimeError ''Cannot use MPI'')"
proof -
  have l: "lower ''bogus'' = ''bogus''" by code_simp
  show ?thesis
    using map_py_invalid [of "''bogus''" ex_module ex_host ex_world ex_fn "[10, 20, 30]"
                             None True None]
    by (simp add: l ex_module_def)
qed

text \<open>
  C9. A call of \<^verbatim>\<open>imap\<close> validates nothing and changes nothing: it returns an unstarted
  generator holding the arguments. The invalid policy, the unavailable MPI runtime and
  the invalid worker count are each raised by the first advance of that generator, and
  by the call of \<^verbatim>\<open>map\<close>, which drains it; whatever the first advance raises, \<^verbatim>\<open>map\<close>
  raises at its call.
\<close>

theorem imap_defers_errors_to_first_advance:
  "imap w fn xs mw um sd pol =
     (Unstarted \<lparr>a_f = fn, a_s = xs, a_max_workers = mw, a_use_mpi = um,
                 a_seed = sd, a_if_serial = pol\<rparr>, w)
   \<and> (lower pol \<notin> {''raise'', ''warn'', ''ignore''} \<longrightarrow>
        next_gen M H w (fst (imap w fn xs mw um sd pol)) =
          (Raise (AssertionError (''invalid choice '' @ [CHR 0x27] @ lower pol @ [CHR 0x27])),
           Finished, w)
        \<and> map_py M H w fn xs mw um sd pol =
          (Inl (AssertionError (''invalid choice '' @ [CHR 0x27] @ lower pol @ [CHR 0x27])), w))
   \<and> (lower pol \<in> {''raise'', ''warn'', ''ignore''} \<and> um \<and> \<not> USING_MPI M \<longrightarrow>
        next_gen M H w (fst (imap w fn xs mw um sd pol)) =
          (Raise (RuntimeError ''Cannot use MPI''), Finished, w)
        \<and> map_py M H w fn xs mw um sd pol = (Inl (RuntimeError ''Cannot use MPI''), w))
   \<and> (lower pol \<in> {''raise'', ''warn'', ''ignore''} \<and> \<not> um
        \<and> \<not> max_workers_or mw (cpu_count H - 1) < cpu_count H \<longrightarrow>
        next_gen M H w (fst (imap w fn xs mw um sd pol)) =
          (Raise (AssertionError []), Finished, w)
        \<and> map_py M H w fn xs mw um sd pol = (Inl (AssertionError []), w))
   \<and> (\<forall>e g' w'. next_gen M H w (fst (imap w fn xs mw um sd pol)) = (Raise e, g', w') \<longrightarrow>
        map_py M H w fn xs mw um sd pol = (Inl e, w'))"
proof -
  let ?a = "\<lparr>a_f = fn, a_s = xs, a_max_workers = mw, a_use_mpi = um,
             a_seed = sd, a_if_serial = pol\<rparr>"
  have call: "imap w fn xs mw um sd pol = (Unstarted ?a, w)"
    by (simp add: imap_def)
  have fails: "next_gen M H w (Unstarted ?a) = (Raise e, Finished, w')
               \<and> map_py M H w fn xs mw um sd pol = (Inl e, w')"
    if "imap_body M H w ?a = (Inl e, w')" for e w'
    using that by (simp add: map_py_body next_gen_raise)
  have policy: "imap_body M H w ?a =
          (Inl (AssertionError (''invalid choice '' @ [CHR 0x27] @ lower pol @ [CHR 0x27])), w)"
    if "lower pol \<notin> {''raise'', ''warn'', ''ignore''}"
    using that imap_body_invalid [of ?a M H w] by auto
  have mpi: "imap_body M H w ?a = (Inl (RuntimeError ''Cannot use MPI''), w)"
    if "lower pol \<in> {''raise'', ''warn'', ''ignore''}" "um" "\<not> USING_MPI M"
    using that imap_body_valid [of ?a M H w] by (auto simp: imap_mpi_unavailable)
  have count: "imap_body M H w ?a = (Inl (AssertionError []), w)"
    if "lower pol \<in> {''raise'', ''warn'', ''ignore''}" "\<not> um"
      "\<not> max_workers_or mw (cpu_count H - 1) < cpu_count H"
    using that imap_body_valid [of ?a M H w] imap_local_assert [of ?a H M w] by auto
  have drained: "map_py M H w fn xs mw um sd pol = (Inl e, w')"
    if "next_gen M H w (Unstarted ?a) = (Raise e, g', w')" for e g' w'
  proof -
    obtain r w1 where b: "imap_body M H w ?a = (r, w1)"
      by (cases "imap_body M H w ?a")
    show ?thesis
    proof (cases r)
      case (Inl e1)
      with b that show ?thesis by (simp add: map_py_body next_gen_def)
    next
      case (Inr rs)
      with b that have "resume rs = (Raise e, g')" "w1 = w'"
        by (auto simp: next_gen_def split: prod.splits)
      then have "collect rs = Inl e"
        by (cases rs rule: resume.cases) simp_all
      with b Inr \<open>w1 = w'\<close> show ?thesis by (simp add: map_py_body)
    qed
  qed
  show ?thesis
    unfolding call fst_conv
    using fails [OF policy] fails [OF mpi] fails [OF count] drained by blast
qed

theorem imap_defers_errors_to_first_advance_witness:
  "snd (imap ex_world ex_fn [10, 20, 30] (Some 4) False None ''bogus'') = ex_world
   \<and> lower ''bogus'' \<notin> {''raise'', ''warn'', ''ignore''}
   \<and> fst (next_gen ex_module ex_host ex_world
            (fst (imap ex_world ex_fn [10, 20, 30] (Some 4) False None ''bogus'')))
       = Raise (AssertionError (''invalid choice '' @ [CHR 0x27] @ ''bogus'' @ [CHR 0x27]))
   \<and> lower ''warn'' \<in> {''raise'', ''warn'', ''ignore''} \<and> \<not> USING_MPI ex_module
   \<and> fst (next_gen ex_module ex_host ex_world
            (fst (imap ex_world ex_fn [10, 20, 30] (Some 4) True None ''warn'')))
       = Raise (RuntimeError ''Cannot use MPI'')
   \<and> \<not> max_workers_or (Some 4) (cpu_count ex_host - 1) < cpu_count ex_host
   \<and> fst (next_gen ex_module ex_host ex_world
            (fst (imap ex_world ex_fn [10, 20, 30] (Some 4) False None ''warn'')))
       = Raise (AssertionError [])
   \<and> fst (map_py ex_module ex_host ex_world ex_fn [10, 20, 30] (Some 4) False None ''warn'')
       = Inl (AssertionError [])"
proof -
  have l: "lower ''bogus'' = ''bogus''" by code_simp
  have m: "\<not> USING_MPI ex_module" by (simp add: ex_module_def)
  have c: "\<not> max_workers_or (Some 4) (cpu_count ex_host - 1) < cpu_count ex_host"
    by (simp add: max_workers_or_def ex_host_def)
  show ?thesis
    using imap_defers_errors_to_first_advance
            [of ex_world ex_fn "[10, 20, 30]" "Some 4" False None "''bogus''" ex_module ex_host]
          imap_defers_errors_to_first_advance
            [of ex_world ex_fn "[10, 20, 30]" "Some 4" True None "''warn''" ex_module ex_host]
          imap_defers_errors_to_first_advance
            [of ex_world ex_fn "[10, 20, 30]" "Some 4" False None "''warn''" ex_module ex_host]
          m c
    by (simp add: l lower_policies imap_def)
qed

text \<open>
  C4. The claim: the workers of one invocation have distinct ranks, each is seeded with
  the base seed plus its rank, and no two of them get the same seed. The source reads
  the rank of a pool process from the last character of its name alone. On a
  sixteen-core host a call with eleven items, eleven workers and the seed 42 starts
  the processes numbered 1 to 11; the first and the eleventh both end in the digit 1
  and both store the seed 43.
\<close>

theorem eleven_workers_share_a_seed:
  "length (workers (snd (map_py ex_module ex_host_16 ex_world ex_fn ex_items (Some 11)
                           False (Some 42) ''raise''))) = 11
   \<and> proc_name (workers (snd (map_py ex_module ex_host_16 ex_world ex_fn ex_items
                                 (Some 11) False (Some 42) ''raise'')) ! 0)
       = ''ForkProcess-1''
   \<and> proc_name (workers (snd (map_py ex_module ex_host_16 ex_world ex_fn ex_items
                                 (Some 11) False (Some 42) ''raise'')) ! 10)
       = ''ForkProcess-11''
   \<and> random_seed (workers (snd (map_py ex_module ex_host_16 ex_world ex_fn ex_items
                                   (Some 11) False (Some 42) ''raise'')) ! 0)
       = Some 43
   \<and> random_seed (workers (snd (map_py ex_module ex_host_16 ex_world ex_fn ex_items
                                   (Some 11) False (Some 42) ''raise'')) ! 10)
       = Some 43"
proof -
  have names: "worker_name ex_host_16 (Suc 0) = ''ForkProcess-1''"
    "worker_name ex_host_16 11 = ''ForkProcess-11''"
    by code_simp+
  obtain r w' where run:
    "map_py ex_module ex_host_16 ex_world ex_fn ex_items (Some 11) False (Some 42)
       ''raise'' = (r, w')"
    "workers w' = workers ex_world @
       map (\<lambda>i. \<lparr>proc_COMM = COMM ex_module,
                  proc_name = worker_name ex_host_16 (process_counter ex_world + i),
                  proc_time = time_time ex_host_16,
                  random_seed = Some (42 + int ((process_counter ex_world + i) mod 10))\<rparr>)
         [0..<nat 11]"
    using map_py_local_ok [of "''raise''" "Some 11" ex_host_16 11 ex_module ex_world ex_fn
                              "ex_items" "Some 42"]
    by (auto simp: max_workers_or_def ex_host_16_def ex_items_def lower_policies)
  show ?thesis
    unfolding run snd_conv
    by (simp add: ex_world_def ex_items_def names)
qed

text \<open>
  C7, as amended. \<^verbatim>\<open>generate_seed\<close> completes exactly when the rank can be read: with
  \<^verbatim>\<open>use_mpi\<close> when \<^verbatim>\<open>COMM\<close> is bound, without it when the name of the process is not
  empty and ends in a decimal digit. It then stores the base (the seed, or the clock
  when the seed is \<^verbatim>\<open>None\<close>) plus that rank. No rank is assumed otherwise: the call
  raises NameError, IndexError or ValueError.
\<close>

theorem generate_seed_completes_iff_rank_readable:
  "((\<exists>p'. generate_seed p um sd = Inr p') \<longleftrightarrow>
      (if um then proc_COMM p \<noteq> None
       else proc_name p \<noteq> [] \<and> last (proc_name p) \<in> set ''0123456789''))
   \<and> (um \<and> proc_COMM p = None \<longrightarrow> generate_seed p um sd = Inl (NameError ''COMM''))
   \<and> (\<not> um \<and> proc_name p = [] \<longrightarrow>
        generate_seed p um sd = Inl (IndexError ''string index out of range''))
   \<and> (\<not> um \<and> proc_name p \<noteq> [] \<and> last (proc_name p) \<notin> set ''0123456789'' \<longrightarrow>
        generate_seed p um sd =
          Inl (ValueError (''invalid literal for int() with base 10: '' @ [last (proc_name p)])))
   \<and> (\<forall>p'. generate_seed p um sd = Inr p' \<longrightarrow>
        (\<exists>r. rank p um = Inr r
           \<and> p' = p\<lparr>random_seed :=
                      Some ((case sd of Some b \<Rightarrow> b | None \<Rightarrow> proc_time p) + r)\<rparr>))"
proof (intro conjI)
  show "(\<exists>p'. generate_seed p um sd = Inr p') \<longleftrightarrow>
      (if um then proc_COMM p \<noteq> None
       else proc_name p \<noteq> [] \<and> last (proc_name p) \<in> set ''0123456789'')"
  proof -
    have "(\<exists>p'. generate_seed p um sd = Inr p') \<longleftrightarrow> (\<exists>r. rank p um = Inr r)"
      by (cases "rank p um") (simp_all add: generate_seed_rank generate_seed_raises)
    then show ?thesis by (simp only: rank_Inr_iff)
  qed
  show "um \<and> proc_COMM p = None \<longrightarrow> generate_seed p um sd = Inl (NameError ''COMM'')"
    by (simp add: generate_seed_def rank_def)
  show "\<not> um \<and> proc_name p = [] \<longrightarrow>
        generate_seed p um sd = Inl (IndexError ''string index out of range'')"
    by (simp add: generate_seed_def rank_def)
  show "\<not> um \<and> proc_name p \<noteq> [] \<and> last (proc_name p) \<notin> set ''0123456789'' \<longrightarrow>
        generate_seed p um sd =
          Inl (ValueError (''invalid literal for int() with base 10: '' @ [last (proc_name p)]))"
    using is_digit_iff [of "last (proc_name p)"]
    by (auto simp: generate_seed_def rank_def int_of_char_def Let_def)
  show "\<forall>p'. generate_seed p um sd = Inr p' \<longrightarrow>
        (\<exists>r. rank p um = Inr r
           \<and> p' = p\<lparr>random_seed :=
                      Some ((case sd of Some b \<Rightarrow> b | None \<Rightarrow> proc_time p) + r)\<rparr>)"
    by (cases "rank p um") (simp_all add: generate_seed_rank generate_seed_raises)
qed

theorem generate_seed_completes_iff_rank_readable_witness:
  "proc_name (ex_process ''ForkProcess-3'') \<noteq> []
   \<and> last (proc_name (ex_process ''ForkProcess-3'')) \<in> set ''0123456789''
   \<and> (\<exists>p'. generate_seed (ex_process ''ForkProcess-3'') False (Some 42) = Inr p')
   \<and> last (proc_name (ex_process ''MainProcess'')) \<notin> set ''0123456789''
   \<and> generate_seed (ex_process ''MainProcess'') False (Some 42) =
       Inl (ValueError (''invalid literal for int() with base 10: '' @ ''s''))
   \<and> generate_seed (ex_process []) False (Some 42) =
       Inl (IndexError ''string index out of range'')
   \<and> generate_seed (ex_process ''MainProcess'') True (Some 42) = Inl (NameError ''COMM'')"
  using generate_seed_completes_iff_rank_readable [of "ex_process ''ForkProcess-3''" False "Some 42"]
        generate_seed_completes_iff_rank_readable [of "ex_process ''MainProcess''" False "Some 42"]
        generate_seed_completes_iff_rank_readable [of "ex_process []" False "Some 42"]
        generate_seed_completes_iff_rank_readable [of "ex_process ''MainProcess''" True "Some 42"]
  by (simp add: ex_process_def)

text \<open>
  The claim as stated fails in the main process: its name ends in a letter, the rank
  cannot be read, and \<^verbatim>\<open>generate_seed\<close> raises ValueError instead of taking rank 0.
\<close>

theorem generate_seed_counterexample:
  "generate_seed (ex_process ''MainProcess'') False (Some 42) =
     Inl (ValueError (''invalid literal for int() with base 10: '' @ ''s''))
   \<and> worker_seed (ex_process ''MainProcess'') False (Some 42) \<noteq> Some (42 + 0)"
  by (simp add: worker_seed_def generate_seed_def rank_def int_of_char_def ex_process_def Let_def)

text \<open>
  C5, as amended. For a call through the local branch whose policy passes the check of
  line 102: when the supplied or computed \<^verbatim>\<open>max_workers\<close> (the CPU count minus 1 where
  \<^verbatim>\<open>None\<close> or 0 is supplied) is not below the CPU count, the call fails with the
  AssertionError of line 128 (at the call for \<^verbatim>\<open>map\<close>, at the first advance for the
  generator of \<^verbatim>\<open>imap\<close>) and nothing has changed. The source does not check
  \<^verbatim>\<open>0 < max_workers\<close>: a count that is at most 0 and below the CPU count passes line
  128, the function is stored in the registry, and the failure is the ValueError of the
  ProcessPoolExecutor constructor; no worker process is started and no item is
  submitted then either.
\<close>

theorem local_worker_count_failures:
  assumes "lower pol \<in> {''raise'', ''warn'', ''ignore''}"
  shows "(\<not> max_workers_or mw (cpu_count H - 1) < cpu_count H \<longrightarrow>
            map_py M H w fn xs mw False sd pol = (Inl (AssertionError []), w)
          \<and> next_gen M H w (fst (imap w fn xs mw False sd pol)) =
              (Raise (AssertionError []), Finished, w))
       \<and> (max_workers_or mw (cpu_count H - 1) < cpu_count H
            \<and> max_workers_or mw (cpu_count H - 1) \<le> 0 \<longrightarrow>
            map_py M H w fn xs mw False sd pol =
              (Inl (ValueError ''max_workers must be greater than 0''),
               w\<lparr>FUNCTIONS := (FUNCTIONS w)(ident fn \<mapsto> call fn),
                 pool_calls := pool_calls w
                               @ [(LOCAL, max_workers_or mw (cpu_count H - 1))]\<rparr>)
          \<and> next_gen M H w (fst (imap w fn xs mw False sd pol)) =
              (Raise (ValueError ''max_workers must be greater than 0''), Finished,
               w\<lparr>FUNCTIONS := (FUNCTIONS w)(ident fn \<mapsto> call fn),
                 pool_calls := pool_calls w
                               @ [(LOCAL, max_workers_or mw (cpu_count H - 1))]\<rparr>))"
proof -
  let ?a = "\<lparr>a_f = fn, a_s = xs, a_max_workers = mw, a_use_mpi = False,
             a_seed = sd, a_if_serial = pol\<rparr>"
  let ?n = "max_workers_or mw (cpu_count H - 1)"
  have body: "imap_body M H w ?a = imap_local M H w ?a"
    using assms imap_body_valid [of ?a M H w] by auto
  have gen: "fst (imap w fn xs mw False sd pol) = Unstarted ?a"
    by (simp add: imap_def)
  have too_many: "imap_body M H w ?a = (Inl (AssertionError []), w)" if "\<not> ?n < cpu_count H"
    using that body imap_local_assert [of ?a H M w] by simp
  have too_few: "imap_body M H w ?a =
          (Inl (ValueError ''max_workers must be greater than 0''),
           w\<lparr>FUNCTIONS := (FUNCTIONS w)(ident fn \<mapsto> call fn),
             pool_calls := pool_calls w @ [(LOCAL, ?n)]\<rparr>)"
    if "?n < cpu_count H" "?n \<le> 0"
    using that body imap_local_nonpos [of ?a H ?n M w] by simp
  show ?thesis
    unfolding gen
    using too_many too_few
    by (auto simp: map_py_body next_gen_raise)
qed

theorem local_worker_count_failures_witness:
  "lower ''raise'' \<in> {''raise'', ''warn'', ''ignore''}
   \<and> \<not> max_workers_or (Some 4) (cpu_count ex_host - 1) < cpu_count ex_host
   \<and> fst (map_py ex_module ex_host ex_world ex_fn [10, 20, 30] (Some 4) False None ''raise'')
       = Inl (AssertionError [])
   \<and> pool_calls (snd (map_py ex_module ex_host ex_world ex_fn [10, 20, 30] (Some 4) False
                         None ''raise'')) = []
   \<and> max_workers_or (Some (- 1)) (cpu_count ex_host - 1) < cpu_count ex_host
   \<and> max_workers_or (Some (- 1)) (cpu_count ex_host - 1) \<le> 0
   \<and> fst (map_py ex_module ex_host ex_world ex_fn [10, 20, 30] (Some (- 1)) False None
            ''raise'')
       = Inl (ValueError ''max_workers must be greater than 0'')
   \<and> workers (snd (map_py ex_module ex_host ex_world ex_fn [10, 20, 30] (Some (- 1)) False
                      None ''raise'')) = []
   \<and> submitted (snd (map_py ex_module ex_host ex_world ex_fn [10, 20, 30] (Some (- 1)) False
                        None ''raise'')) = 0"
proof -
  have h: "lower ''raise'' \<in> {''raise'', ''warn'', ''ignore''}"
    by (simp add: lower_policies)
  show ?thesis
    using h local_worker_count_failures
              [OF h, of "Some 4" ex_host ex_module ex_world ex_fn "[10, 20, 30]" None]
            local_worker_count_failures
              [OF h, of "Some (- 1)" ex_host ex_module ex_world ex_fn "[10, 20, 30]" None]
    by (simp add: max_workers_or_def ex_host_def ex_world_def)
qed

text \<open>
  The claim as stated fails for \<^verbatim>\<open>max_workers=-1\<close> on four CPUs: the count violates
  \<^verbatim>\<open>0 < max_workers\<close>, yet the check of line 128 passes, the registry is written, and
  the failure is the pool constructor's ValueError, not the AssertionError of the
  check. It fails also for \<^verbatim>\<open>max_workers=4\<close> with the policy \<^verbatim>\<open>bogus\<close>: the failure
  is that of the policy check.
\<close>

theorem local_worker_count_counterexample:
  "\<not> (0 < (- 1 :: int) \<and> (- 1) < cpu_count ex_host)
   \<and> fst (map_py ex_module ex_host ex_world ex_fn [10, 20, 30] (Some (- 1)) False None
            ''raise'')
       = Inl (ValueError ''max_workers must be greater than 0'')
   \<and> dom (FUNCTIONS (snd (map_py ex_module ex_host ex_world ex_fn [10, 20, 30] (Some (- 1))
                             False None ''raise''))) = {7}
   \<and> \<not> (0 < (4 :: int) \<and> 4 < cpu_count ex_host)
   \<and> fst (map_py ex_module ex_host ex_world ex_fn [10, 20, 30] (Some 4) False None ''bogus'')
       = Inl (AssertionError (''invalid choice '' @ [CHR 0x27] @ ''bogus'' @ [CHR 0x27]))"
proof -
  have l: "lower ''bogus'' = ''bogus''" by code_simp
  show ?thesis
    using map_py_local_nonpos [of "''raise''" "Some (- 1)" ex_host "- 1" ex_module ex_world
                                  ex_fn "[10, 20, 30]" None]
          map_py_invalid [of "''bogus''" ex_module ex_host ex_world ex_fn "[10, 20, 30]"
                             "Some 4" False None]
    by (simp add: l max_workers_or_def ex_host_def lower_policies ex_world_def ex_fn_def)
qed

text \<open>
  C6, as amended. A call that reaches line 130 (local branch, valid policy, worker
  count below the CPU count) stores the function under \<^verbatim>\<open>id(f)\<close> and nothing ever
  removes the entry: after the call, whether it succeeded or failed, the registry is
  the registry before the call with that entry added; every other call leaves the
  registry as it was. A later call with the same function object finds its entry
  already there and adds no further one.
\<close>

theorem registry_entry_is_kept:
  "FUNCTIONS (snd (map_py M H w fn xs mw um sd pol)) =
     (if lower pol \<in> {''raise'', ''warn'', ''ignore''} \<and> \<not> um
         \<and> max_workers_or mw (cpu_count H - 1) < cpu_count H
      then (FUNCTIONS w)(ident fn \<mapsto> call fn) else FUNCTIONS w)
   \<and> (lower pol \<in> {''raise'', ''warn'', ''ignore''} \<and> \<not> um
        \<and> max_workers_or mw (cpu_count H - 1) < cpu_count H \<longrightarrow>
        FUNCTIONS (snd (map_py M H (snd (map_py M H w fn xs mw um sd pol))
                          fn xs' mw' um' sd' pol'))
          = FUNCTIONS (snd (map_py M H w fn xs mw um sd pol)))"
proof -
  have first: "FUNCTIONS (snd (map_py M H w fn xs mw um sd pol)) =
     (if lower pol \<in> {''raise'', ''warn'', ''ignore''} \<and> \<not> um
         \<and> max_workers_or mw (cpu_count H - 1) < cpu_count H
      then (FUNCTIONS w)(ident fn \<mapsto> call fn) else FUNCTIONS w)"
    by (rule map_py_registry)
  have "FUNCTIONS (snd (map_py M H (snd (map_py M H w fn xs mw um sd pol))
                          fn xs' mw' um' sd' pol'))
          = FUNCTIONS (snd (map_py M H w fn xs mw um sd pol))"
    if "lower pol \<in> {''raise'', ''warn'', ''ignore''} \<and> \<not> um
        \<and> max_workers_or mw (cpu_count H - 1) < cpu_count H"
  proof -
    from that first
    have "FUNCTIONS (snd (map_py M H w fn xs mw um sd pol))
            = (FUNCTIONS w)(ident fn \<mapsto> call fn)"
      by simp
    then show ?thesis
      by (simp add: map_py_registry)
  qed
  with first show ?thesis by blast
qed

theorem registry_entry_is_kept_witness:
  "lower ''raise'' \<in> {''raise'', ''warn'', ''ignore''}
   \<and> max_workers_or (Some 2) (cpu_count ex_host - 1) < cpu_count ex_host
   \<and> dom (FUNCTIONS (snd (map_py ex_module ex_host ex_world ex_fn [10, 20, 30] (Some 2) False
                             None ''raise''))) = {7}
   \<and> dom (FUNCTIONS (snd (map_py ex_module ex_host
                             (snd (map_py ex_module ex_host ex_world ex_fn [10, 20, 30]
                                     (Some 2) False None ''raise''))
                             ex_fn [40] (Some 3) False None ''ignore''))) = {7}"
proof -
  show ?thesis
    using registry_entry_is_kept
            [of ex_module ex_host ex_world ex_fn "[10, 20, 30]" "Some 2" False None "''raise''"
                "[40]" "Some 3" False None "''ignore''"]
    by (simp add: max_workers_or_def ex_host_def lower_policies ex_world_def ex_fn_def)
qed

text \<open>
  The claim as stated fails on an empty registry: after a call that succeeds, and after
  a call that fails in the pool constructor, the registry holds one entry.
\<close>

theorem registry_counterexample:
  "card (dom (FUNCTIONS ex_world)) = 0
   \<and> fst (map_py ex_module ex_host ex_world ex_fn [10, 20, 30] (Some 2) False None ''raise'')
       = Inr [11, 21, 31]
   \<and> card (dom (FUNCTIONS (snd (map_py ex_module ex_host ex_world ex_fn [10, 20, 30] (Some 2)
                                   False None ''raise'')))) = 1
   \<and> fst (map_py ex_module ex_host ex_world ex_fn [10, 20, 30] (Some (- 1)) False None
            ''raise'')
       = Inl (ValueError ''max_workers must be greater than 0'')
   \<and> card (dom (FUNCTIONS (snd (map_py ex_module ex_host ex_world ex_fn [10, 20, 30]
                                   (Some (- 1)) False None ''raise'')))) = 1"
proof -
  obtain w' where ok:
    "map_py ex_module ex_host ex_world ex_fn [10, 20, 30] (Some 2) False None ''raise''
       = (list_comprehension (call ex_fn) [10, 20, 30], w')"
    "FUNCTIONS w' = (FUNCTIONS ex_world)(ident ex_fn \<mapsto> call ex_fn)"
    using map_py_local_ok [of "''raise''" "Some 2" ex_host 2 ex_module ex_world ex_fn
                              "[10, 20, 30]" None]
    by (auto simp: max_workers_or_def ex_host_def lower_policies)
  have bad:
    "map_py ex_module ex_host ex_world ex_fn [10, 20, 30] (Some (- 1)) False None ''raise''
       = (Inl (ValueError ''max_workers must be greater than 0''),
          ex_world\<lparr>FUNCTIONS := (FUNCTIONS ex_world)(ident ex_fn \<mapsto> call ex_fn),
                   pool_calls := pool_calls ex_world @ [(LOCAL, - 1)]\<rparr>)"
    using map_py_local_nonpos [of "''raise''" "Some (- 1)" ex_host "- 1" ex_module ex_world
                                  ex_fn "[10, 20, 30]" None]
    by (simp add: max_workers_or_def ex_host_def lower_policies)
  show ?thesis
    unfolding ok bad
    by (simp add: ok(2) ex_world_def ex_fn_def list_comprehension_def)
qed

text \<open>
  C10. A \<^verbatim>\<open>max_workers\<close> of 0 is treated as not supplied: the call behaves in every
  respect as the call with \<^verbatim>\<open>None\<close>. On the local branch the pool is constructed with
  the CPU count minus 1 and the assertion of line 128 does not fail; on the MPI branch
  the pool is constructed with the universe size minus 1.
\<close>

theorem zero_max_workers_means_default:
  "map_py M H w fn xs (Some 0) um sd pol = map_py M H w fn xs None um sd pol
   \<and> next_gen M H w (fst (imap w fn xs (Some 0) um sd pol))
       = next_gen M H w (fst (imap w fn xs None um sd pol))
   \<and> (lower pol \<in> {''raise'', ''warn'', ''ignore''} \<and> \<not> um \<longrightarrow>
        pool_calls (snd (map_py M H w fn xs (Some 0) um sd pol))
          = pool_calls w @ [(LOCAL, cpu_count H - 1)]
        \<and> map_py M H w fn xs (Some 0) um sd pol \<noteq> (Inl (AssertionError []), w))
   \<and> (lower pol \<in> {''raise'', ''warn'', ''ignore''} \<and> um \<and> USING_MPI M \<and> MPI M
        \<and> COMM M = Some c \<and> UNIVERSE_SIZE c = Some u \<and> (u = 1 \<longrightarrow> lower pol = ''ignore'')
      \<longrightarrow>
        pool_calls (snd (map_py M H w fn xs (Some 0) um sd pol))
          = pool_calls w @ [(DISTRIBUTED, u - 1)])"
proof (intro conjI impI)
  show "map_py M H w fn xs (Some 0) um sd pol = map_py M H w fn xs None um sd pol"
    by (rule map_py_zero)
  show "next_gen M H w (fst (imap w fn xs (Some 0) um sd pol))
          = next_gen M H w (fst (imap w fn xs None um sd pol))"
    by (rule next_gen_zero)
next
  assume h: "lower pol \<in> {''raise'', ''warn'', ''ignore''} \<and> \<not> um"
  have n: "max_workers_or (Some 0) (cpu_count H - 1) = cpu_count H - 1"
    by (simp add: max_workers_or_def)
  have local: "pool_calls (snd (map_py M H w fn xs (Some 0) False sd pol))
          = pool_calls w @ [(LOCAL, cpu_count H - 1)]"
  proof (cases "cpu_count H - 1 \<le> 0")
    case True
    then show ?thesis
      using map_py_local_nonpos [of pol "Some 0" H "cpu_count H - 1" M w fn xs sd] h n
      by simp
  next
    case False
    then obtain r w' where
      "map_py M H w fn xs (Some 0) False sd pol = (r, w')"
      "pool_calls w' = pool_calls w @ [(LOCAL, cpu_count H - 1)]"
      using map_py_local_ok [of pol "Some 0" H "cpu_count H - 1" M w fn xs sd] h n
      by auto
    then show ?thesis by simp
  qed
  from h local
  show calls: "pool_calls (snd (map_py M H w fn xs (Some 0) um sd pol))
          = pool_calls w @ [(LOCAL, cpu_count H - 1)]"
    by simp
  show "map_py M H w fn xs (Some 0) um sd pol \<noteq> (Inl (AssertionError []), w)"
  proof
    assume "map_py M H w fn xs (Some 0) um sd pol = (Inl (AssertionError []), w)"
    with calls show False by simp
  qed
next
  assume h: "lower pol \<in> {''raise'', ''warn'', ''ignore''} \<and> um \<and> USING_MPI M \<and> MPI M
        \<and> COMM M = Some c \<and> UNIVERSE_SIZE c = Some u \<and> (u = 1 \<longrightarrow> lower pol = ''ignore'')"
  have n: "max_workers_or (Some 0) (u - 1) = u - 1"
    by (simp add: max_workers_or_def)
  have "pool_calls (snd (map_py M H w fn xs (Some 0) True sd pol))
          = pool_calls w @ [(DISTRIBUTED, u - 1)]"
    using map_py_mpi_pool_calls [of pol M c u "Some 0" "u - 1" H w fn xs sd] h n by blast
  with h show "pool_calls (snd (map_py M H w fn xs (Some 0) um sd pol))
          = pool_calls w @ [(DISTRIBUTED, u - 1)]"
    by simp
qed

theorem zero_max_workers_means_default_witness:
  "lower ''raise'' \<in> {''raise'', ''warn'', ''ignore''}
   \<and> pool_calls (snd (map_py ex_module ex_host ex_world ex_fn [10, 20, 30] (Some 0) False None
                         ''raise'')) = [(LOCAL, 3)]
   \<and> module_init (ex_host_mpi 4) = Inr (ex_module_mpi 4)
   \<and> USING_MPI (ex_module_mpi 4) \<and> MPI (ex_module_mpi 4)
   \<and> COMM (ex_module_mpi 4) = Some (ex_comm 4) \<and> UNIVERSE_SIZE (ex_comm 4) = Some 4
   \<and> pool_calls (snd (map_py (ex_module_mpi 4) (ex_host_mpi 4) ex_world ex_fn [10, 20, 30]
                         (Some 0) True None ''raise'')) = [(DISTRIBUTED, 3)]"
proof -
  have i: "module_init (ex_host_mpi 4) = Inr (ex_module_mpi 4)"
    by (simp add: module_init_def ex_host_mpi_def ex_module_mpi_def ex_comm_def
        environ_truthy_def)
  show ?thesis
    using i
      zero_max_workers_means_default
        [of ex_module ex_host ex_world ex_fn "[10, 20, 30]" False None "''raise''"
            "ex_comm 4" 4, THEN conjunct2, THEN conjunct2, THEN conjunct1]
      zero_max_workers_means_default
        [of "ex_module_mpi 4" "ex_host_mpi 4" ex_world ex_fn "[10, 20, 30]" True None
            "''raise''" "ex_comm 4" 4, THEN conjunct2, THEN conjunct2, THEN conjunct2]
    by (simp add: lower_policies ex_host_def ex_world_def ex_module_mpi_def ex_comm_def)
qed

text \<open>
  C3. The claim: with distributed execution requested and exactly one slot reported,
  the policy \<^verbatim>\<open>raise\<close> fails with the error that carries the guidance, \<^verbatim>\<open>warn\<close> warns
  once and returns the results, \<^verbatim>\<open>ignore\<close> returns the results silently. On a host
  whose MPI universe has one slot the import turns MPI off, and under each of the three
  policies the call fails with \<^verbatim>\<open>RuntimeError('Cannot use MPI')\<close>: without the guidance
  under \<^verbatim>\<open>raise\<close>, without a warning or a result under \<^verbatim>\<open>warn\<close>, without a result under
  \<^verbatim>\<open>ignore\<close>.
\<close>

theorem one_slot_universe_ignores_policy:
  "mpi4py (ex_host_mpi 1) = Some (ex_comm 1) \<and> UNIVERSE_SIZE (ex_comm 1) = Some 1
   \<and> module_init (ex_host_mpi 1)
       = Inr \<lparr>MPI = False, COMM = Some (ex_comm 1), USING_MPI = False\<rparr>
   \<and> map_py \<lparr>MPI = False, COMM = Some (ex_comm 1), USING_MPI = False\<rparr> (ex_host_mpi 1)
        ex_world ex_fn [10, 20, 30] None True None ''raise''
       = (Inl (RuntimeError ''Cannot use MPI''), ex_world)
   \<and> Inl (RuntimeError ''Cannot use MPI'') \<noteq> (Inl (RuntimeError err_msg) :: exn + int list)
   \<and> map_py \<lparr>MPI = False, COMM = Some (ex_comm 1), USING_MPI = False\<rparr> (ex_host_mpi 1)
        ex_world ex_fn [10, 20, 30] None True None ''warn''
       = (Inl (RuntimeError ''Cannot use MPI''), ex_world)
   \<and> warnings ex_world = []
   \<and> map_py \<lparr>MPI = False, COMM = Some (ex_comm 1), USING_MPI = False\<rparr> (ex_host_mpi 1)
        ex_world ex_fn [10, 20, 30] None True None ''ignore''
       = (Inl (RuntimeError ''Cannot use MPI''), ex_world)"
proof -
  let ?M = "\<lparr>MPI = False, COMM = Some (ex_comm 1), USING_MPI = False\<rparr>"
  have i: "module_init (ex_host_mpi 1) = Inr ?M"
    by (simp add: module_init_def ex_host_mpi_def ex_comm_def environ_truthy_def)
  have m: "err_msg \<noteq> ''Cannot use MPI''"
    by (simp add: err_msg_def)
  have "map_py ?M (ex_host_mpi 1) ex_world ex_fn [10, 20, 30] None True None pol
          = (Inl (RuntimeError ''Cannot use MPI''), ex_world)"
    if "lower pol \<in> {''raise'', ''warn'', ''ignore''}" for pol
    using that map_py_mpi_unavailable [of pol ?M "ex_host_mpi 1" ex_world ex_fn "[10, 20, 30]"
                                          None None]
    by simp
  from this [of "''raise''"] this [of "''warn''"] this [of "''ignore''"] i m
  show ?thesis
    by (simp add: lower_policies ex_host_mpi_def ex_comm_def ex_world_def)
qed

end
